theory Spec2Isabelle
  imports Complex_Main
begin

section \<open>Multivariate analysis (hyperspy/learn/mva.py): a shallow embedding\<close>

text \<open>
  The development follows \<^verbatim>\<open>src/hyperspy/learn/mva.py\<close>. Array elements are IEEE
  doubles in the source; here they are values of the datatype \<open>float64\<close>: a finite
  value is an exact real number (rounding, overflow and underflow are not modelled, and
  the two signed zeros are identified), and the three special values \<open>NaN\<close>,
  \<open>PInf\<close>, \<open>NInf\<close> follow the IEEE rules numpy applies. A one-dimensional numpy
  array is a list, a two-dimensional one the list of its rows. Lazy (dask) arrays are
  outside the model: every array is an eager numpy array.
\<close>

subsection \<open>Floating-point values with the IEEE special values\<close>

datatype float64 = Fin real | PInf | NInf | NaN

definition inf_signed :: "real \<Rightarrow> float64" where
  "inf_signed a = (if a = 0 then NaN else if 0 < a then PInf else NInf)"

fun f_neg :: "float64 \<Rightarrow> float64" where
  "f_neg (Fin a) = Fin (- a)"
| "f_neg PInf = NInf"
| "f_neg NInf = PInf"
| "f_neg NaN = NaN"

fun f_add :: "float64 \<Rightarrow> float64 \<Rightarrow> float64" where
  "f_add (Fin a) (Fin b) = Fin (a + b)"
| "f_add (Fin a) PInf = PInf"
| "f_add (Fin a) NInf = NInf"
| "f_add PInf (Fin b) = PInf"
| "f_add NInf (Fin b) = NInf"
| "f_add PInf PInf = PInf"
| "f_add NInf NInf = NInf"
| "f_add PInf NInf = NaN"
| "f_add NInf PInf = NaN"
| "f_add NaN y = NaN"
| "f_add x NaN = NaN"

definition f_sub :: "float64 \<Rightarrow> float64 \<Rightarrow> float64" where
  "f_sub x y = f_add x (f_neg y)"

fun f_mul :: "float64 \<Rightarrow> float64 \<Rightarrow> float64" where
  "f_mul (Fin a) (Fin b) = Fin (a * b)"
| "f_mul (Fin a) PInf = inf_signed a"
| "f_mul (Fin a) NInf = inf_signed (- a)"
| "f_mul PInf (Fin b) = inf_signed b"
| "f_mul NInf (Fin b) = inf_signed (- b)"
| "f_mul PInf PInf = PInf"
| "f_mul NInf NInf = PInf"
| "f_mul PInf NInf = NInf"
| "f_mul NInf PInf = NInf"
| "f_mul NaN y = NaN"
| "f_mul x NaN = NaN"

fun f_div :: "float64 \<Rightarrow> float64 \<Rightarrow> float64" where
  "f_div (Fin a) (Fin b) = (if b = 0 then inf_signed a else Fin (a / b))"
| "f_div (Fin a) PInf = Fin 0"
| "f_div (Fin a) NInf = Fin 0"
| "f_div PInf (Fin b) = (if b < 0 then NInf else PInf)"
| "f_div NInf (Fin b) = (if b < 0 then PInf else NInf)"
| "f_div PInf PInf = NaN"
| "f_div NInf NInf = NaN"
| "f_div PInf NInf = NaN"
| "f_div NInf PInf = NaN"
| "f_div NaN y = NaN"
| "f_div x NaN = NaN"

fun f_abs :: "float64 \<Rightarrow> float64" where
  "f_abs (Fin a) = Fin \<bar>a\<bar>"
| "f_abs PInf = PInf"
| "f_abs NInf = PInf"
| "f_abs NaN = NaN"

fun f_sqrt :: "float64 \<Rightarrow> float64" where
  "f_sqrt (Fin a) = (if a < 0 then NaN else Fin (sqrt a))"
| "f_sqrt PInf = PInf"
| "f_sqrt NInf = NaN"
| "f_sqrt NaN = NaN"

fun f_log :: "float64 \<Rightarrow> float64" where
  "f_log (Fin a) = (if a < 0 then NaN else if a = 0 then NInf else Fin (ln a))"
| "f_log PInf = PInf"
| "f_log NInf = NaN"
| "f_log NaN = NaN"

text \<open>Comparisons: every comparison with \<open>NaN\<close> is false.\<close>

fun f_less :: "float64 \<Rightarrow> float64 \<Rightarrow> bool" where
  "f_less (Fin a) (Fin b) = (a < b)"
| "f_less (Fin a) PInf = True"
| "f_less NInf (Fin b) = True"
| "f_less NInf PInf = True"
| "f_less x y = False"

fun f_le :: "float64 \<Rightarrow> float64 \<Rightarrow> bool" where
  "f_le (Fin a) (Fin b) = (a \<le> b)"
| "f_le (Fin a) PInf = True"
| "f_le NInf (Fin b) = True"
| "f_le NInf PInf = True"
| "f_le PInf PInf = True"
| "f_le NInf NInf = True"
| "f_le x y = False"

definition is_nan :: "float64 \<Rightarrow> bool" where
  "is_nan x = (x = NaN)"

text \<open>The largest finite double, \<open>(2 - 2\<^sup>-\<^sup>5\<^sup>2) * 2\<^sup>1\<^sup>0\<^sup>2\<^sup>3\<close>.\<close>

definition max_float :: real where
  "max_float = (2 - 1 / 2 ^ 52) * 2 ^ 1023"

text \<open>\<^verbatim>\<open>np.nan_to_num\<close> with its default arguments: NaN becomes 0, the infinities
  become the largest and the smallest finite double.\<close>

fun nan_to_num :: "float64 \<Rightarrow> float64" where
  "nan_to_num NaN = Fin 0"
| "nan_to_num PInf = Fin max_float"
| "nan_to_num NInf = Fin (- max_float)"
| "nan_to_num (Fin a) = Fin a"

text \<open>\<^verbatim>\<open>np.minimum\<close> and \<^verbatim>\<open>np.maximum\<close> propagate NaN.\<close>

definition np_minimum :: "float64 \<Rightarrow> float64 \<Rightarrow> float64" where
  "np_minimum x y = (if is_nan x \<or> is_nan y then NaN else if f_le x y then x else y)"

definition np_maximum :: "float64 \<Rightarrow> float64 \<Rightarrow> float64" where
  "np_maximum x y = (if is_nan x \<or> is_nan y then NaN else if f_le y x then x else y)"

text \<open>\<^verbatim>\<open>np.clip(a, lo, None)\<close> on one element.\<close>

definition np_clip_lower :: "float64 \<Rightarrow> float64 \<Rightarrow> float64" where
  "np_clip_lower lo x = np_maximum x lo"

subsection \<open>Errors\<close>

text \<open>Every \<^verbatim>\<open>raise\<close> of the source, and every exception numpy raises on the paths
  modelled, is a value of \<open>error\<close>, named by its Python class and its place.\<close>

datatype error =
    TypeError_dtype
  | AttributeError_navigation_size
  | ValueError_output_dimension
  | ImportError_sklearn
  | ValueError_centre
  | ValueError_negative_values
  | ValueError_var_both
  | ValueError_var_array_shape
  | ValueError_var_func
  | ValueError_not_recognised
  | ValueError_zero_size
  | ValueError_broadcast
  | ValueError_matmul
  | ValueError_reshape
  | ValueError_argmax_empty
  | ValueError_no_decomposition
  | ValueError_target
  | ValueError_criterion
  | IndexError_boolean_index
  | IndexError_too_many_indices
  | IndexError_out_of_bounds
  | TypeError_NoneType
  | AttributeError_NoneType
  | AttributeError_components
  | AttributeError_undo
  | AttributeError_root
  | UnboundLocalError_loadings
  | BackendError string

text \<open>The Python class of an error; the spec's \<open>ConfigurationError\<close> and
  \<open>DomainError\<close> of the Poisson check are both \<^verbatim>\<open>ValueError\<close> in the source.\<close>

fun is_ValueError :: "error \<Rightarrow> bool" where
  "is_ValueError ValueError_output_dimension = True"
| "is_ValueError ValueError_centre = True"
| "is_ValueError ValueError_negative_values = True"
| "is_ValueError ValueError_var_both = True"
| "is_ValueError ValueError_var_array_shape = True"
| "is_ValueError ValueError_var_func = True"
| "is_ValueError ValueError_not_recognised = True"
| "is_ValueError ValueError_zero_size = True"
| "is_ValueError ValueError_broadcast = True"
| "is_ValueError ValueError_matmul = True"
| "is_ValueError ValueError_reshape = True"
| "is_ValueError ValueError_argmax_empty = True"
| "is_ValueError ValueError_no_decomposition = True"
| "is_ValueError ValueError_target = True"
| "is_ValueError ValueError_criterion = True"
| "is_ValueError e = False"

subsection \<open>numpy arrays as lists\<close>

type_synonym array1 = "float64 list"
type_synonym array2 = "float64 list list"

text \<open>A boolean array with its shape and its elements in row-major order;
  \<^verbatim>\<open>ravel\<close> keeps the elements, \<^verbatim>\<open>reshape\<close> checks the size.\<close>

type_synonym bool_ndarray = "nat list \<times> bool list"

definition ravel :: "bool_ndarray \<Rightarrow> bool list" where
  "ravel m = snd m"

definition np_reshape :: "nat list \<Rightarrow> bool list \<Rightarrow> error + bool_ndarray" where
  "np_reshape shape xs =
     (if prod_list shape = length xs then Inr (shape, xs) else Inl ValueError_reshape)"

definition np_invert :: "bool_ndarray \<Rightarrow> bool_ndarray" where
  "np_invert m = (fst m, map Not (snd m))"

text \<open>Number of columns (\<^verbatim>\<open>shape[1]\<close>). An array with no row is the empty list
  and counts as having no column.\<close>

definition ncols :: "'a list list \<Rightarrow> nat" where
  "ncols M = (case M of [] \<Rightarrow> 0 | r # _ \<Rightarrow> length r)"

text \<open>The index used on one axis: \<^verbatim>\<open>slice(None)\<close> or a boolean array.\<close>

datatype selector = SliceAll | BoolIndex "bool list"

definition include_selector :: "bool list option \<Rightarrow> selector" where
  "include_selector msk = (case msk of None \<Rightarrow> SliceAll | Some m \<Rightarrow> BoolIndex (map Not m))"

text \<open>\<^verbatim>\<open>a[sel]\<close> on one axis; a boolean index of the wrong length raises IndexError.\<close>

definition take_sel :: "selector \<Rightarrow> 'a list \<Rightarrow> error + 'a list" where
  "take_sel sel xs =
     (case sel of
        SliceAll \<Rightarrow> Inr xs
      | BoolIndex m \<Rightarrow>
          if length m = length xs then Inr (map fst (filter snd (zip xs m)))
          else Inl IndexError_boolean_index)"

text \<open>\<^verbatim>\<open>a[:, sel]\<close>: the selection applied to every row.\<close>

fun take_cols :: "selector \<Rightarrow> 'a list list \<Rightarrow> error + 'a list list" where
  "take_cols sel [] = Inr []"
| "take_cols sel (r # rs) =
     (case take_sel sel r of
        Inl e \<Rightarrow> Inl e
      | Inr r' \<Rightarrow> (case take_cols sel rs of Inl e \<Rightarrow> Inl e | Inr rs' \<Rightarrow> Inr (r' # rs')))"

text \<open>\<^verbatim>\<open>dc[:, signal_mask][navigation_mask, :]\<close>.\<close>

definition take_block :: "selector \<Rightarrow> selector \<Rightarrow> 'a list list \<Rightarrow> error + 'a list list" where
  "take_block sm nm dc =
     (case take_cols sm dc of Inl e \<Rightarrow> Inl e | Inr cs \<Rightarrow> take_sel nm cs)"

text \<open>\<^verbatim>\<open>a[m] = new\<close> for a boolean \<open>m\<close> of the length of \<open>a\<close>: the selected
  positions receive the elements of \<open>new\<close> in order.\<close>

fun put_bool :: "bool list \<Rightarrow> 'a list \<Rightarrow> 'a list \<Rightarrow> 'a list" where
  "put_bool (True # m) (x # xs) (y # ys) = y # put_bool m xs ys"
| "put_bool (False # m) (x # xs) ys = x # put_bool m xs ys"
| "put_bool m xs ys = xs"

definition put_sel :: "selector \<Rightarrow> 'a list \<Rightarrow> 'a list \<Rightarrow> 'a list" where
  "put_sel sel xs new = (case sel of SliceAll \<Rightarrow> new | BoolIndex m \<Rightarrow> put_bool m xs new)"

text \<open>
  \<^verbatim>\<open>dc[:, signal_mask][navigation_mask, :] = new\<close> and the augmented form
  \<^verbatim>\<open>dc[:, signal_mask][navigation_mask, :] /= ...\<close>. Python evaluates
  \<^verbatim>\<open>tmp = dc[:, signal_mask]\<close> first and then stores into \<^verbatim>\<open>tmp[navigation_mask, :]\<close>.
  With \<^verbatim>\<open>signal_mask = slice(None)\<close> the index is a basic one and \<^verbatim>\<open>tmp\<close> is a view
  of \<open>dc\<close>: the rows selected by \<open>nm\<close> are replaced in \<open>dc\<close>. With a boolean
  array the index is an advanced one and numpy returns a copy: the store goes to the
  temporary and \<open>dc\<close> keeps its values.
\<close>

definition store_block :: "selector \<Rightarrow> selector \<Rightarrow> 'a list list \<Rightarrow> 'a list list \<Rightarrow> 'a list list" where
  "store_block sm nm dc new =
     (case sm of SliceAll \<Rightarrow> put_sel nm dc new | BoolIndex m \<Rightarrow> dc)"

text \<open>Reductions. \<^verbatim>\<open>np.sum\<close> starts from 0; \<^verbatim>\<open>np.min\<close> propagates NaN and
  raises ValueError on an array without elements.\<close>

fun np_sum :: "array1 \<Rightarrow> float64" where
  "np_sum [] = Fin 0"
| "np_sum (x # xs) = f_add x (np_sum xs)"

fun np_min :: "array1 \<Rightarrow> error + float64" where
  "np_min [] = Inl ValueError_zero_size"
| "np_min [x] = Inr x"
| "np_min (x # y # ys) =
     (case np_min (y # ys) of Inl e \<Rightarrow> Inl e | Inr m \<Rightarrow> Inr (np_minimum x m))"

subsection \<open>The result store and the dataset\<close>

text \<open>
  An estimator in the manner of scikit-learn, as \<^verbatim>\<open>decomposition\<close> uses one: which of
  the methods it has, what they return, and the attributes read from its last step after
  fitting (\<^verbatim>\<open>estim[-1]\<close> for a pipeline, \<^verbatim>\<open>best_estimator_\<close> for a search object, the
  estimator itself otherwise). The estimators are external collaborators: their methods
  are arbitrary functions that may raise.
\<close>

record Estimator =
  has_fit_transform :: bool
  has_fit :: bool
  has_transform :: bool
  fit_transform :: "array2 \<Rightarrow> error + array2"
  fit :: "array2 \<Rightarrow> error + unit"
  transform :: "array2 \<Rightarrow> error + array2"
  components_attr :: "array2 option"
  explained_variance_attr :: "array1 option"
  mean_attr :: "array1 option"

text \<open>The \<^verbatim>\<open>algorithm\<close> argument: a name or an estimator object.\<close>

datatype algorithm = AlgName string | AlgObject Estimator

text \<open>\<^verbatim>\<open>class LearningResults\<close>: the attributes \<^verbatim>\<open>__init__\<close> sets, all \<^verbatim>\<open>None\<close>
  at first, and \<^verbatim>\<open>on_loadings\<close>, which only \<^verbatim>\<open>blind_source_separation\<close> sets.\<close>

record LearningResults =
  factors :: "array2 option"
  loadings :: "array2 option"
  explained_variance :: "array1 option"
  explained_variance_ratio :: "array1 option"
  number_significant_components :: "nat option"
  decomposition_algorithm :: "algorithm option"
  poissonian_noise_normalized :: "bool option"
  output_dimension :: "int option"
  mean :: "array1 option"
  centre :: "string option"
  bss_algorithm :: "string option"
  unmixing_matrix :: "array2 option"
  bss_factors :: "array2 option"
  bss_loadings :: "array2 option"
  unfolded :: "bool option"
  original_shape :: "nat list option"
  navigation_mask :: "bool_ndarray option"
  signal_mask :: "bool_ndarray option"
  on_loadings :: "bool option"

text \<open>\<^verbatim>\<open>LearningResults()\<close>: the object \<^verbatim>\<open>__init__\<close> builds. It has no
  \<^verbatim>\<open>on_loadings\<close> attribute.\<close>

definition LearningResults_init :: LearningResults where
  "LearningResults_init =
     \<lparr> factors = None, loadings = None, explained_variance = None,
       explained_variance_ratio = None, number_significant_components = None,
       decomposition_algorithm = None, poissonian_noise_normalized = None,
       output_dimension = None, mean = None, centre = None,
       bss_algorithm = None, unmixing_matrix = None, bss_factors = None,
       bss_loadings = None, unfolded = None, original_shape = None,
       navigation_mask = None, signal_mask = None, on_loadings = None \<rparr>"

text \<open>\<^verbatim>\<open>self.learning_results.__dict__.update(target.__dict__)\<close>, where \<^verbatim>\<open>target\<close>
  was built by \<^verbatim>\<open>LearningResults()\<close>: every attribute that \<^verbatim>\<open>__init__\<close> sets is
  overwritten by the one of \<^verbatim>\<open>target\<close>; \<^verbatim>\<open>on_loadings\<close> is not a key of
  \<^verbatim>\<open>target.__dict__\<close> and stays.\<close>

definition dict_update :: "LearningResults \<Rightarrow> LearningResults \<Rightarrow> LearningResults" where
  "dict_update lr target = target\<lparr> on_loadings := on_loadings lr \<rparr>"

text \<open>
  The signal (\<^verbatim>\<open>self\<close>). \<open>data\<close> is the unfolded two-dimensional view \<^verbatim>\<open>dc\<close> the
  methods work on, navigation index first (\<^verbatim>\<open>self.data\<close> or its transpose, both views
  of the same memory). \<open>dtype_is_float\<close> is the test
  \<^verbatim>\<open>self.data.dtype.char in np.typecodes["AllFloat"]\<close>. \<open>needs_unfold\<close> is what
  \<^verbatim>\<open>self.unfold()\<close> returns, \<open>folding_original_shape\<close> is
  \<^verbatim>\<open>self.metadata._HyperSpy.Folding.original_shape\<close>. An attribute that may be absent
  (\<^verbatim>\<open>_data_before_treatments\<close>, \<^verbatim>\<open>_root_aG\<close>, \<^verbatim>\<open>_root_bH\<close>) is an option.
\<close>

record Signal =
  data :: array2
  dtype_is_float :: bool
  navigation_size :: nat
  navigation_shape_in_array :: "nat list"
  signal_shape_in_array :: "nat list"
  needs_unfold :: bool
  folding_original_shape :: "nat list"
  data_before_treatments :: "array2 option"
  root_aG :: "array1 option"
  root_bH :: "array1 option"
  unfolded4decomposition :: bool
  learning_results :: LearningResults

subsection \<open>\<^verbatim>\<open>normalize_poissonian_noise\<close> and \<^verbatim>\<open>undo_treatments\<close>\<close>

text \<open>The element-wise quotient of the block by the outer product
  \<^verbatim>\<open>self._root_aG * self._root_bH\<close> (a column times a row).\<close>

definition divide_outer :: "array2 \<Rightarrow> array1 \<Rightarrow> array1 \<Rightarrow> array2" where
  "divide_outer block ra rb =
     map2 (\<lambda>row a. map2 (\<lambda>x b. f_div x (f_mul a b)) row rb) block ra"

text \<open>
  \<^verbatim>\<open>MVA.normalize_poissonian_noise\<close> (lines 1518-1571). The result is the error
  raised, if any, and the signal as the call leaves it. \<^verbatim>\<open>.squeeze()\<close> turns a sum
  vector with a single entry into a zero-dimensional array, on which the index
  \<^verbatim>\<open>[:, np.newaxis]\<close> (or \<^verbatim>\<open>[np.newaxis, :]\<close>) raises IndexError.
\<close>

definition normalize_poissonian_noise ::
  "bool list option \<Rightarrow> bool list option \<Rightarrow> Signal \<Rightarrow> (error + unit) \<times> Signal" where
  "normalize_poissonian_noise navigation_mask_arg signal_mask_arg self =
     (let dc = data self;
          nm = include_selector navigation_mask_arg;
          sm = include_selector signal_mask_arg
      in (case take_block sm nm dc of
           Inl e \<Rightarrow> (Inl e, self)
         | Inr block \<Rightarrow>
        (case np_min (concat block) of
           Inl e \<Rightarrow> (Inl e, self)
         | Inr minimum \<Rightarrow>
          if f_le minimum (Fin 0) then (Inl ValueError_negative_values, self)
          else
            let aG = map np_sum block;
                bH = map np_sum (transpose block)
            in if length aG = 1 then (Inl IndexError_too_many_indices, self)
               else
                 let self1 = self\<lparr> root_aG := Some (map f_sqrt aG) \<rparr>
                 in if length bH = 1 then (Inl IndexError_too_many_indices, self1)
                    else
                      let self2 = self1\<lparr> root_bH := Some (map f_sqrt bH) \<rparr>;
                          dc1 = store_block sm nm dc
                                  (divide_outer block (map f_sqrt aG) (map f_sqrt bH))
                      in (case take_block sm nm dc1 of
                            Inl e \<Rightarrow> (Inl e, self2\<lparr> data := dc1 \<rparr>)
                          | Inr block1 \<Rightarrow>
                              (Inr (),
                               self2\<lparr> data := store_block sm nm dc1
                                                 (map (map nan_to_num) block1) \<rparr>)))))"

text \<open>\<^verbatim>\<open>MVA.undo_treatments\<close> (lines 1573-1586).\<close>

definition undo_treatments :: "Signal \<Rightarrow> (error + unit) \<times> Signal" where
  "undo_treatments self =
     (case data_before_treatments self of
        Some backup \<Rightarrow> (Inr (), self\<lparr> data := backup, data_before_treatments := None \<rparr>)
      | None \<Rightarrow> (Inl AttributeError_undo, self))"

subsection \<open>\<^verbatim>\<open>estimate_elbow_position\<close>\<close>

text \<open>Python indexing and slicing: a negative index counts from the end, an index out
  of range raises IndexError, a slice is clipped to the list.\<close>

definition py_index :: "'a list \<Rightarrow> int \<Rightarrow> error + 'a" where
  "py_index xs i =
     (if 0 \<le> i \<and> i < int (length xs) then Inr (xs ! nat i)
      else if i < 0 \<and> - int (length xs) \<le> i then Inr (xs ! nat (int (length xs) + i))
      else Inl IndexError_out_of_bounds)"

definition py_slice_to :: "int \<Rightarrow> 'a list \<Rightarrow> 'a list" where
  "py_slice_to n xs = (if n < 0 then take (nat (int (length xs) + n)) xs else take (nat n) xs)"

definition np_arange :: "int \<Rightarrow> int list" where
  "np_arange n = map int [0..<nat n]"

text \<open>A binary operation on two one-dimensional arrays, with numpy's broadcasting:
  equal lengths, or one of the two of length one.\<close>

definition broadcast2 ::
  "(float64 \<Rightarrow> float64 \<Rightarrow> float64) \<Rightarrow> array1 \<Rightarrow> array1 \<Rightarrow> error + array1" where
  "broadcast2 f xs ys =
     (if length xs = length ys then Inr (map2 f xs ys)
      else if length xs = 1 then Inr (map (f (hd xs)) ys)
      else if length ys = 1 then Inr (map (\<lambda>x. f x (hd ys)) xs)
      else Inl ValueError_broadcast)"

text \<open>\<^verbatim>\<open>np.argmax\<close>: the first index of the maximum, a NaN counting as the maximum;
  ValueError on an array without elements.\<close>

definition argmax_better :: "float64 \<Rightarrow> float64 \<Rightarrow> bool" where
  "argmax_better x best = (\<not> is_nan best \<and> (is_nan x \<or> f_less best x))"

fun argmax_from :: "nat \<Rightarrow> float64 \<Rightarrow> nat \<Rightarrow> array1 \<Rightarrow> nat" where
  "argmax_from best_i best i [] = best_i"
| "argmax_from best_i best i (x # xs) =
     (if argmax_better x best then argmax_from i x (Suc i) xs
      else argmax_from best_i best (Suc i) xs)"

definition np_argmax :: "array1 \<Rightarrow> error + nat" where
  "np_argmax xs = (case xs of [] \<Rightarrow> Inl ValueError_argmax_empty
                   | x # xs' \<Rightarrow> Inr (argmax_from 0 x 1 xs'))"

text \<open>Lines 1641-1664 of \<^verbatim>\<open>MVA.estimate_elbow_position\<close>, from the curve chosen.\<close>

definition elbow_position_of_curve :: "array1 \<Rightarrow> int \<Rightarrow> error + nat" where
  "elbow_position_of_curve curve_values max_points_arg =
     (let max_points = min max_points_arg (int (length curve_values) - 1);
          curve_values_adj = map (np_clip_lower (Fin (1 / 10 ^ 30))) curve_values;
          x1 = (0::int);
          x2 = max_points
      in (case py_index curve_values_adj 0 of
            Inl e \<Rightarrow> Inl e
          | Inr c1 \<Rightarrow>
         (case py_index curve_values_adj max_points of
            Inl e \<Rightarrow> Inl e
          | Inr c2 \<Rightarrow>
              let y1 = f_log c1;
                  y2 = f_log c2;
                  xs = np_arange max_points;
                  ys = map f_log (py_slice_to max_points curve_values_adj)
              in (case broadcast2 f_sub
                         (map (\<lambda>y. f_mul (Fin (of_int (x2 - x1))) (f_sub y1 y)) ys)
                         (map (\<lambda>x. f_mul (Fin (of_int (x1 - x))) (f_sub y2 y1)) xs) of
                    Inl e \<Rightarrow> Inl e
                  | Inr d \<Rightarrow>
                      let numer = map f_abs d;
                          denom = f_sqrt (f_add (Fin (of_int ((x2 - x1) ^ 2)))
                                                (f_mul (f_sub y2 y1) (f_sub y2 y1)));
                          distance = map nan_to_num (map (\<lambda>n. f_div n denom) numer)
                      in np_argmax distance))))"

text \<open>\<^verbatim>\<open>MVA.estimate_elbow_position\<close> (lines 1588-1664).\<close>

definition estimate_elbow_position :: "array1 option \<Rightarrow> int \<Rightarrow> Signal \<Rightarrow> error + nat" where
  "estimate_elbow_position explained_variance_ratio_arg max_points self =
     (case explained_variance_ratio_arg of
        None \<Rightarrow>
          (case explained_variance_ratio (learning_results self) of
             None \<Rightarrow> Inl ValueError_no_decomposition
           | Some curve_values \<Rightarrow> elbow_position_of_curve curve_values max_points)
      | Some curve_values \<Rightarrow> elbow_position_of_curve curve_values max_points)"

text \<open>
  The geometry the claim speaks of, in its own words: the perpendicular distance from a
  point \<open>P\<close> to the line through \<open>A\<close> and \<open>B\<close> is the distance from \<open>P\<close> to
  the foot of the perpendicular, the point of the line at which the segment to \<open>P\<close>
  is orthogonal to the line.
\<close>

definition perpendicular_foot :: "real \<times> real \<Rightarrow> real \<times> real \<Rightarrow> real \<times> real \<Rightarrow> real \<times> real" where
  "perpendicular_foot A B P =
     (let ux = fst B - fst A; uy = snd B - snd A;
          t = ((fst P - fst A) * ux + (snd P - snd A) * uy) / (ux\<^sup>2 + uy\<^sup>2)
      in (fst A + t * ux, snd A + t * uy))"

definition perpendicular_distance :: "real \<times> real \<Rightarrow> real \<times> real \<Rightarrow> real \<times> real \<Rightarrow> real" where
  "perpendicular_distance A B P =
     (let Q = perpendicular_foot A B P
      in sqrt ((fst P - fst Q)\<^sup>2 + (snd P - snd Q)\<^sup>2))"

text \<open>The point of the curve at index \<open>i\<close> after clipping at \<open>1e-30\<close> and taking
  the logarithm, and its distance to the line through the points at \<open>0\<close> and \<open>m\<close>.\<close>

definition log_point :: "real list \<Rightarrow> nat \<Rightarrow> real \<times> real" where
  "log_point curve i = (real i, ln (max (curve ! i) (1 / 10 ^ 30)))"

definition elbow_distance :: "real list \<Rightarrow> nat \<Rightarrow> nat \<Rightarrow> real" where
  "elbow_distance curve m i =
     perpendicular_distance (log_point curve 0) (log_point curve m) (log_point curve i)"

text \<open>\<open>k\<close> is the first index at which the list takes its maximum.\<close>

definition is_first_max :: "real list \<Rightarrow> nat \<Rightarrow> bool" where
  "is_first_max xs k \<longleftrightarrow>
     k < length xs \<and> (\<forall>j<length xs. xs ! j \<le> xs ! k) \<and> (\<forall>j<k. xs ! j < xs ! k)"

subsection \<open>Sign reversal of the BSS components\<close>

text \<open>\<^verbatim>\<open>a[:, i] *= -1\<close> and \<^verbatim>\<open>a[i, :] *= -1\<close> for an index \<open>i \<ge> 0\<close>; an index out
  of range raises IndexError.\<close>

definition negate_column :: "nat \<Rightarrow> array2 \<Rightarrow> error + array2" where
  "negate_column i M =
     (if i < ncols M then Inr (map (\<lambda>r. r[i := f_mul (r ! i) (Fin (- 1))]) M)
      else Inl IndexError_out_of_bounds)"

definition negate_row :: "nat \<Rightarrow> array2 \<Rightarrow> error + array2" where
  "negate_row i M =
     (if i < length M then Inr (M[i := map (\<lambda>x. f_mul x (Fin (- 1))) (M ! i)])
      else Inl IndexError_out_of_bounds)"

text \<open>\<^verbatim>\<open>MVA.reverse_bss_component\<close> (lines 1053-1065) for one component index. Each of
  the three statements updates its array in place; an error leaves the earlier updates
  in the store.\<close>

definition reverse_bss_component :: "nat \<Rightarrow> LearningResults \<Rightarrow> (error + unit) \<times> LearningResults" where
  "reverse_bss_component i target =
     (case bss_factors target of
        None \<Rightarrow> (Inl TypeError_NoneType, target)
      | Some F \<Rightarrow>
       (case negate_column i F of
          Inl e \<Rightarrow> (Inl e, target)
        | Inr F' \<Rightarrow>
          let target1 = target\<lparr> bss_factors := Some F' \<rparr>
          in (case bss_loadings target1 of
                None \<Rightarrow> (Inl TypeError_NoneType, target1)
              | Some L \<Rightarrow>
               (case negate_column i L of
                  Inl e \<Rightarrow> (Inl e, target1)
                | Inr L' \<Rightarrow>
                  let target2 = target1\<lparr> bss_loadings := Some L' \<rparr>
                  in (case unmixing_matrix target2 of
                        None \<Rightarrow> (Inl TypeError_NoneType, target2)
                      | Some W \<Rightarrow>
                         (case negate_row i W of
                            Inl e \<Rightarrow> (Inl e, target2)
                          | Inr W' \<Rightarrow>
                              (Inr (), target2\<lparr> unmixing_matrix := Some W' \<rparr>)))))))"

text \<open>\<^verbatim>\<open>np.max\<close>, and \<^verbatim>\<open>np.nanmin\<close> / \<^verbatim>\<open>np.nanmax\<close>, which ignore NaN, return NaN
  when every element is NaN and raise ValueError on an array without elements.\<close>

fun np_max :: "array1 \<Rightarrow> error + float64" where
  "np_max [] = Inl ValueError_zero_size"
| "np_max [x] = Inr x"
| "np_max (x # y # ys) =
     (case np_max (y # ys) of Inl e \<Rightarrow> Inl e | Inr m \<Rightarrow> Inr (np_maximum x m))"

definition np_nanmin :: "array1 \<Rightarrow> error + float64" where
  "np_nanmin xs =
     (if xs = [] then Inl ValueError_zero_size
      else case filter (\<lambda>x. \<not> is_nan x) xs of [] \<Rightarrow> Inr NaN | y # ys \<Rightarrow> np_min (y # ys))"

definition np_nanmax :: "array1 \<Rightarrow> error + float64" where
  "np_nanmax xs =
     (if xs = [] then Inl ValueError_zero_size
      else case filter (\<lambda>x. \<not> is_nan x) xs of [] \<Rightarrow> Inr NaN | y # ys \<Rightarrow> np_max (y # ys))"

text \<open>\<^verbatim>\<open>values[:, i]\<close>.\<close>

definition column :: "nat \<Rightarrow> 'a list list \<Rightarrow> error + 'a list" where
  "column i M =
     (if i < ncols M then Inr (map (\<lambda>r. r ! i) M) else Inl IndexError_out_of_bounds)"

text \<open>The test of lines 1093-1095 on one column:
  \<^verbatim>\<open>minimum < 0 and -minimum > maximum\<close>.\<close>

definition reversal_test :: "array1 \<Rightarrow> error + bool" where
  "reversal_test col =
     (case np_nanmin col of
        Inl e \<Rightarrow> Inl e
      | Inr minimum \<Rightarrow>
       (case np_nanmax col of
          Inl e \<Rightarrow> Inl e
        | Inr maximum \<Rightarrow>
            Inr (f_less minimum (Fin 0) \<and> f_less maximum (f_neg minimum))))"

text \<open>One round of the loop of \<^verbatim>\<open>MVA._auto_reverse_bss_component\<close> (lines 1084-1096).\<close>

definition auto_reverse_step ::
  "string \<Rightarrow> nat \<Rightarrow> LearningResults \<Rightarrow> (error + unit) \<times> LearningResults" where
  "auto_reverse_step reverse_component_criterion i lr =
     (case (if reverse_component_criterion = ''factors'' then Inr (bss_factors lr)
            else if reverse_component_criterion = ''loadings'' then Inr (bss_loadings lr)
            else Inl ValueError_criterion) of
        Inl e \<Rightarrow> (Inl e, lr)
      | Inr None \<Rightarrow> (Inl TypeError_NoneType, lr)
      | Inr (Some values) \<Rightarrow>
         (case column i values of
            Inl e \<Rightarrow> (Inl e, lr)
          | Inr col \<Rightarrow>
             (case reversal_test col of
                Inl e \<Rightarrow> (Inl e, lr)
              | Inr b \<Rightarrow> if b then reverse_bss_component i lr else (Inr (), lr))))"

fun auto_reverse_loop ::
  "string \<Rightarrow> nat list \<Rightarrow> LearningResults \<Rightarrow> (error + unit) \<times> LearningResults" where
  "auto_reverse_loop c [] lr = (Inr (), lr)"
| "auto_reverse_loop c (i # is) lr =
     (case auto_reverse_step c i lr of
        (Inl e, lr') \<Rightarrow> (Inl e, lr')
      | (Inr u, lr') \<Rightarrow> auto_reverse_loop c is lr')"

text \<open>\<^verbatim>\<open>MVA._auto_reverse_bss_component\<close> (lines 1081-1100).\<close>

definition auto_reverse_bss_component ::
  "string \<Rightarrow> LearningResults \<Rightarrow> (error + unit) \<times> LearningResults" where
  "auto_reverse_bss_component reverse_component_criterion lr =
     (case bss_factors lr of
        None \<Rightarrow> (Inl AttributeError_NoneType, lr)
      | Some F \<Rightarrow> auto_reverse_loop reverse_component_criterion [0..<ncols F] lr)"

text \<open>What the claim says of the pass, in its words: a component is reversed when the
  minimum \<open>m\<close> and the maximum \<open>M\<close> of its reference column, NaN ignored, satisfy
  \<open>m < 0\<close> and \<open>\<bar>m\<bar> > M\<close>; reversing negates the column in an array of
  components and the row in the unmixing matrix.\<close>

definition is_reversed :: "array2 \<Rightarrow> nat \<Rightarrow> bool" where
  "is_reversed values i =
     (\<exists>m M. np_nanmin (map (\<lambda>r. r ! i) values) = Inr m
          \<and> np_nanmax (map (\<lambda>r. r ! i) values) = Inr M
          \<and> f_less m (Fin 0) \<and> f_less M (f_abs m))"

definition negate_columns_where :: "(nat \<Rightarrow> bool) \<Rightarrow> array2 \<Rightarrow> array2" where
  "negate_columns_where P M =
     map (\<lambda>r. map (\<lambda>j. if P j then f_neg (r ! j) else r ! j) [0..<length r]) M"

definition negate_rows_where :: "(nat \<Rightarrow> bool) \<Rightarrow> array2 \<Rightarrow> array2" where
  "negate_rows_where P M =
     map (\<lambda>i. if P i then map f_neg (M ! i) else M ! i) [0..<length M]"

text \<open>The store in which the components selected by \<open>P\<close> have been reversed,
  \<open>F\<close>, \<open>L\<close> and \<open>W\<close> being the arrays of before.\<close>

definition with_reversed ::
  "(nat \<Rightarrow> bool) \<Rightarrow> array2 \<Rightarrow> array2 \<Rightarrow> array2 \<Rightarrow> LearningResults \<Rightarrow> LearningResults" where
  "with_reversed P F L W lr =
     lr\<lparr> bss_factors := Some (negate_columns_where P F),
         bss_loadings := Some (negate_columns_where P L),
         unmixing_matrix := Some (negate_rows_where P W) \<rparr>"

text \<open>An array of at least one row whose rows all have \<open>n\<close> entries.\<close>

definition has_columns :: "nat \<Rightarrow> 'a list list \<Rightarrow> bool" where
  "has_columns n M \<longleftrightarrow> M \<noteq> [] \<and> (\<forall>r\<in>set M. length r = n)"

subsection \<open>Normalisation of the components\<close>

text \<open>
  \<^verbatim>\<open>_normalize_components\<close> (lines 83-87). \<^verbatim>\<open>function(target, axis=0)\<close> applies
  \<open>function\<close> to every column of \<open>target\<close>. \<^verbatim>\<open>target /= coeff\<close> divides column
  \<open>j\<close> by \<open>coeff[j]\<close>; \<^verbatim>\<open>other *= coeff\<close> multiplies in place, which numpy allows
  when \<open>other\<close> has as many columns as \<open>coeff\<close> has entries, or \<open>coeff\<close> has one
  entry; it raises ValueError otherwise, and TypeError when \<open>other\<close> is
  \<^verbatim>\<open>None\<close>, in both cases after \<open>target\<close> has been divided.
\<close>

definition columns_of :: "'a list list \<Rightarrow> 'a list list" where
  "columns_of M = map (\<lambda>j. map (\<lambda>r. r ! j) M) [0..<ncols M]"

definition imul_rowvec :: "array2 \<Rightarrow> array1 \<Rightarrow> error + array2" where
  "imul_rowvec M v =
     (if ncols M = length v then Inr (map (\<lambda>r. map2 f_mul r v) M)
      else if length v = 1 then Inr (map (map (\<lambda>x. f_mul x (hd v))) M)
      else Inl ValueError_broadcast)"

text \<open>\<^verbatim>\<open>function(target, axis=0)\<close>.\<close>

definition coefficients :: "(array1 \<Rightarrow> float64) \<Rightarrow> array2 \<Rightarrow> array1" where
  "coefficients function target = map function (columns_of target)"

definition normalize_components ::
  "(array1 \<Rightarrow> float64) \<Rightarrow> array2 \<Rightarrow> array2 option
     \<Rightarrow> (error + unit) \<times> array2 \<times> array2 option" where
  "normalize_components function target other =
     (let coeff = coefficients function target;
          target1 = map (\<lambda>r. map2 f_div r coeff) target
      in (case other of
            None \<Rightarrow> (Inl TypeError_NoneType, target1, None)
          | Some other0 \<Rightarrow>
             (case imul_rowvec other0 coeff of
                Inl e \<Rightarrow> (Inl e, target1, Some other0)
              | Inr other1 \<Rightarrow> (Inr (), target1, Some other1))))"

text \<open>\<^verbatim>\<open>MVA.normalize_decomposition_components\<close> (lines 951-976) and
  \<^verbatim>\<open>MVA.normalize_bss_components\<close> (lines 978-1005). The two arrays are updated in
  place, so the store holds what \<^verbatim>\<open>_normalize_components\<close> leaves.\<close>

definition normalize_decomposition_components ::
  "string \<Rightarrow> (array1 \<Rightarrow> float64) \<Rightarrow> LearningResults \<Rightarrow> (error + unit) \<times> LearningResults" where
  "normalize_decomposition_components target_arg function lr =
     (if target_arg = ''factors'' then
        (case factors lr of
           None \<Rightarrow> (Inl ValueError_no_decomposition, lr)
         | Some target \<Rightarrow>
            (case normalize_components function target (loadings lr) of
               (r, target1, other1) \<Rightarrow>
                 (r, lr\<lparr> factors := Some target1, loadings := other1 \<rparr>)))
      else if target_arg = ''loadings'' then
        (case loadings lr of
           None \<Rightarrow> (Inl ValueError_no_decomposition, lr)
         | Some target \<Rightarrow>
            (case normalize_components function target (factors lr) of
               (r, target1, other1) \<Rightarrow>
                 (r, lr\<lparr> loadings := Some target1, factors := other1 \<rparr>)))
      else (Inl ValueError_target, lr))"

definition normalize_bss_components ::
  "string \<Rightarrow> (array1 \<Rightarrow> float64) \<Rightarrow> LearningResults \<Rightarrow> (error + unit) \<times> LearningResults" where
  "normalize_bss_components target_arg function lr =
     (if target_arg = ''factors'' then
        (case bss_factors lr of
           None \<Rightarrow> (Inl ValueError_no_decomposition, lr)
         | Some target \<Rightarrow>
            (case normalize_components function target (bss_loadings lr) of
               (r, target1, other1) \<Rightarrow>
                 (r, lr\<lparr> bss_factors := Some target1, bss_loadings := other1 \<rparr>)))
      else if target_arg = ''loadings'' then
        (case bss_loadings lr of
           None \<Rightarrow> (Inl ValueError_no_decomposition, lr)
         | Some target \<Rightarrow>
            (case normalize_components function target (bss_factors lr) of
               (r, target1, other1) \<Rightarrow>
                 (r, lr\<lparr> bss_loadings := Some target1, bss_factors := other1 \<rparr>)))
      else (Inl ValueError_target, lr))"

text \<open>What the claim says of the normalisation: every column of an array divided, or
  multiplied, by the coefficient of that column.\<close>

definition divide_columns :: "array2 \<Rightarrow> array1 \<Rightarrow> array2" where
  "divide_columns M coeff = map (\<lambda>r. map (\<lambda>j. f_div (r ! j) (coeff ! j)) [0..<length r]) M"

definition multiply_columns :: "array2 \<Rightarrow> array1 \<Rightarrow> array2" where
  "multiply_columns M coeff = map (\<lambda>r. map (\<lambda>j. f_mul (r ! j) (coeff ! j)) [0..<length r]) M"

text \<open>A coefficient that is a number other than zero.\<close>

definition nonzero_number :: "float64 \<Rightarrow> bool" where
  "nonzero_number c \<longleftrightarrow> (\<exists>r. c = Fin r \<and> r \<noteq> 0)"

text \<open>The reconstruction \<^verbatim>\<open>factors @ loadings.T\<close> of \<^verbatim>\<open>_calculate_recmatrix\<close>
  (lines 1124-1131): entry \<open>(i, k)\<close> is the sum over \<open>j\<close> of
  \<open>factors[i][j] * loadings[k][j]\<close>.\<close>

definition reconstruction :: "array2 \<Rightarrow> array2 \<Rightarrow> array2" where
  "reconstruction F L = map (\<lambda>f. map (\<lambda>l. np_sum (map2 f_mul f l)) L) F"

subsection \<open>\<^verbatim>\<open>decomposition\<close>: arguments, collaborators and checks\<close>

text \<open>The \<^verbatim>\<open>var_func\<close> argument: a callable, an array or list of polynomial
  coefficients, or anything else.\<close>

datatype var_func = VarCallable "array2 \<Rightarrow> error + array2" | VarCoefficients array1 | VarOther

text \<open>What \<^verbatim>\<open>decomposition\<close> returns (\<^verbatim>\<open>to_return\<close>).\<close>

datatype return_info = ReturnNone | ReturnXE array2 array2 | ReturnEstimator Estimator

text \<open>
  The keyword arguments of \<^verbatim>\<open>decomposition\<close> (lines 97-114). \<^verbatim>\<open>print_info\<close> only
  prints and is left out; of \<^verbatim>\<open>**kwargs\<close> only \<^verbatim>\<open>polyfit\<close> is read by the method
  itself (\<open>None\<close> when absent or false), the rest goes to the backends.
\<close>

record decomposition_args =
  kw_normalize_poissonian_noise :: bool
  kw_algorithm :: algorithm
  kw_output_dimension :: "int option"
  kw_centre :: "string option"
  kw_auto_transpose :: bool
  kw_navigation_mask :: "bool_ndarray option"
  kw_signal_mask :: "bool_ndarray option"
  kw_var_array :: "array2 option"
  kw_var_func :: "var_func option"
  kw_reproject :: "string option"
  kw_return_info :: bool
  kw_svd_solver :: string
  kw_copy :: bool
  kw_polyfit :: "var_func option"

text \<open>
  The external collaborators, which are not part of \<^verbatim>\<open>mva.py\<close>: the factorisation
  functions it imports, scikit-learn (whether it is installed, and the estimator its
  classes build from a name and \<^verbatim>\<open>n_components\<close>), and \<^verbatim>\<open>np.linalg.pinv\<close>. Each is
  an arbitrary function that may raise. The results are the tuples the source unpacks:
  \<^verbatim>\<open>svd_pca\<close> gives (factors, loadings, explained_variance, mean), \<^verbatim>\<open>mlpca\<close> gives
  (U, S, V) and an object that is not used, \<^verbatim>\<open>rpca_godec\<close> and \<^verbatim>\<open>orpca\<close> with
  \<^verbatim>\<open>store_error=True\<close> give (X, E, U, S, V), \<^verbatim>\<open>orpca\<close> gives (L, R), \<^verbatim>\<open>ornmf\<close> gives
  (W, H) or, with \<^verbatim>\<open>store_error=True\<close>, (X, E, W, H).
\<close>

record Backends =
  svd_pca :: "array2 \<Rightarrow> string \<Rightarrow> int option \<Rightarrow> string option \<Rightarrow> bool
                \<Rightarrow> error + (array2 \<times> array2 \<times> array1 option \<times> array1 option)"
  mlpca :: "array2 \<Rightarrow> array2 \<Rightarrow> int \<Rightarrow> string \<Rightarrow> error + (array2 \<times> array1 \<times> array2)"
  rpca_godec :: "array2 \<Rightarrow> int \<Rightarrow> error + (array2 \<times> array2 \<times> array2 \<times> array1 \<times> array2)"
  orpca_store_error :: "array2 \<Rightarrow> int \<Rightarrow> error + (array2 \<times> array2 \<times> array2 \<times> array1 \<times> array2)"
  orpca :: "array2 \<Rightarrow> int \<Rightarrow> error + (array2 \<times> array2)"
  ornmf_store_error :: "array2 \<Rightarrow> int \<Rightarrow> error + (array2 \<times> array2 \<times> array2 \<times> array2)"
  ornmf :: "array2 \<Rightarrow> int \<Rightarrow> error + (array2 \<times> array2)"
  sklearn_installed :: bool
  decomposition_algorithms :: "string \<Rightarrow> int option \<Rightarrow> Estimator"
  np_linalg_pinv :: "array2 \<Rightarrow> error + array2"

text \<open>Python's \<^verbatim>\<open>p in s\<close> on strings.\<close>

fun py_in :: "string \<Rightarrow> string \<Rightarrow> bool" where
  "py_in p [] = (p = [])"
| "py_in p (x # xs) = (take (length p) (x # xs) = p \<or> py_in p xs)"

text \<open>Lines 238-268: the deprecated names. An estimator object is not a key of the
  table.\<close>

definition algorithms_deprecated :: "(string \<times> string) list" where
  "algorithms_deprecated =
     [(''fast_svd'', ''svd''), (''fast_mlpca'', ''mlpca''), (''RPCA_GoDec'', ''rpca''),
      (''ORPCA'', ''orpca''), (''ORNMF'', ''ornmf'')]"

definition rename_deprecated :: "algorithm \<Rightarrow> string \<Rightarrow> algorithm \<times> string" where
  "rename_deprecated algorithm svd_solver =
     (case algorithm of
        AlgObject e \<Rightarrow> (algorithm, svd_solver)
      | AlgName name \<Rightarrow>
         (case map_of algorithms_deprecated name of
            None \<Rightarrow> (algorithm, svd_solver)
          | Some new_algo \<Rightarrow>
              (AlgName new_algo, if py_in ''fast'' name then ''randomized'' else svd_solver)))"

definition algorithms_require_dimension :: "string list" where
  "algorithms_require_dimension = [''mlpca'', ''rpca'', ''orpca'', ''ornmf'']"

definition algorithms_sklearn :: "string list" where
  "algorithms_sklearn = [''sklearn_pca'', ''nmf'', ''sparse_pca'', ''mini_batch_sparse_pca'']"

text \<open>\<^verbatim>\<open>algorithm in names\<close> and \<^verbatim>\<open>algorithm == name\<close>: false for an estimator
  object.\<close>

definition alg_in :: "algorithm \<Rightarrow> string list \<Rightarrow> bool" where
  "alg_in algorithm names =
     (case algorithm of AlgName name \<Rightarrow> name \<in> set names | AlgObject e \<Rightarrow> False)"

definition alg_is :: "algorithm \<Rightarrow> string \<Rightarrow> bool" where
  "alg_is algorithm name = alg_in algorithm [name]"

text \<open>The locals the checks of lines 220-331 leave for the rest of the method.\<close>

record Checked =
  c_algorithm :: algorithm
  c_svd_solver :: string
  c_is_sklearn_like :: bool
  c_estim :: "Estimator option"
  c_normalize_poissonian_noise :: bool
  c_var_func :: "var_func option"

text \<open>Lines 282-311: the estimator, if the algorithm is used like one of
  scikit-learn.\<close>

definition sklearn_estimator :: "Backends \<Rightarrow> algorithm \<Rightarrow> int option \<Rightarrow> Estimator option" where
  "sklearn_estimator B algorithm output_dimension_arg =
     (case algorithm of
        AlgName name \<Rightarrow>
          if name \<in> set algorithms_sklearn
          then Some (decomposition_algorithms B name output_dimension_arg) else None
      | AlgObject e \<Rightarrow>
          if has_fit_transform e \<or> (has_fit e \<and> has_transform e) then Some e else None)"

text \<open>Lines 220-331, everything before the data is copied: the checks that raise
  before the guarded block, in the order of the source.\<close>

definition checks :: "Backends \<Rightarrow> decomposition_args \<Rightarrow> Signal \<Rightarrow> error + Checked" where
  "checks B a self =
     (if \<not> dtype_is_float self then Inl TypeError_dtype
      else if navigation_size self < 2 then Inl AttributeError_navigation_size
      else
        (case rename_deprecated (kw_algorithm a) (kw_svd_solver a) of
           (algorithm, svd_solver) \<Rightarrow>
             if alg_in algorithm algorithms_require_dimension \<and> kw_output_dimension a = None
             then Inl ValueError_output_dimension
             else if alg_in algorithm algorithms_sklearn \<and> \<not> sklearn_installed B
             then Inl ImportError_sklearn
             else
               Inr \<lparr> c_algorithm = algorithm,
                     c_svd_solver = svd_solver,
                     c_is_sklearn_like =
                       (sklearn_estimator B algorithm (kw_output_dimension a) \<noteq> None),
                     c_estim = sklearn_estimator B algorithm (kw_output_dimension a),
                     c_normalize_poissonian_noise =
                       (if alg_is algorithm ''mlpca'' \<and> kw_normalize_poissonian_noise a
                        then False else kw_normalize_poissonian_noise a),
                     c_var_func =
                       (case kw_polyfit a of Some p \<Rightarrow> Some p | None \<Rightarrow> kw_var_func a) \<rparr>))"

subsection \<open>\<^verbatim>\<open>decomposition\<close>: the dispatch to the backends\<close>

text \<open>Apply a function that may raise to every element, stopping at the first error.\<close>

fun map_result :: "('a \<Rightarrow> error + 'b) \<Rightarrow> 'a list \<Rightarrow> error + 'b list" where
  "map_result f [] = Inr []"
| "map_result f (x # xs) =
     (case f x of
        Inl e \<Rightarrow> Inl e
      | Inr y \<Rightarrow> (case map_result f xs of Inl e \<Rightarrow> Inl e | Inr ys \<Rightarrow> Inr (y # ys)))"

text \<open>A two-dimensional array combined with a one-dimensional one, broadcast over the
  rows (\<^verbatim>\<open>U * S\<close>, \<^verbatim>\<open>dc - mean\<close>).\<close>

definition broadcast_rows ::
  "(float64 \<Rightarrow> float64 \<Rightarrow> float64) \<Rightarrow> array2 \<Rightarrow> array1 \<Rightarrow> error + array2" where
  "broadcast_rows f M v = map_result (\<lambda>r. broadcast2 f r v) M"

text \<open>\<^verbatim>\<open>np.polyval(p, x)\<close> on one element (Horner's rule, from zero).\<close>

definition np_polyval :: "array1 \<Rightarrow> float64 \<Rightarrow> float64" where
  "np_polyval p x = foldl (\<lambda>y pv. f_add (f_mul y x) pv) (Fin 0) p"

text \<open>The locals the dispatch leaves: \<^verbatim>\<open>factors\<close>, \<^verbatim>\<open>loadings\<close> (\<open>None\<close> when the
  name is unbound), \<^verbatim>\<open>explained_variance\<close>, \<^verbatim>\<open>mean\<close>, \<^verbatim>\<open>centre\<close>, \<^verbatim>\<open>to_return\<close>.\<close>

record Fit =
  fit_factors :: array2
  fit_loadings :: "array2 option"
  fit_explained_variance :: "array1 option"
  fit_mean :: "array1 option"
  fit_centre :: "string option"
  fit_to_return :: return_info

text \<open>Lines 450-452, 457-459 and 470-472:
  \<^verbatim>\<open>loadings = U * S; factors = V; explained_variance = S ** 2 / len(factors)\<close>.\<close>

definition from_usv ::
  "array2 \<Rightarrow> array1 \<Rightarrow> array2 \<Rightarrow> string option \<Rightarrow> return_info \<Rightarrow> error + Fit" where
  "from_usv U S V centre_arg to_return =
     (case broadcast_rows f_mul U S of
        Inl e \<Rightarrow> Inl e
      | Inr loadings0 \<Rightarrow>
          Inr \<lparr> fit_factors = V,
                fit_loadings = Some loadings0,
                fit_explained_variance =
                  Some (map (\<lambda>s. f_div (f_mul s s) (Fin (real (length V)))) S),
                fit_mean = None,
                fit_centre = centre_arg,
                fit_to_return = to_return \<rparr>)"

text \<open>Lines 420-444: the variance array of \<^verbatim>\<open>mlpca\<close>.\<close>

definition mlpca_var_array :: "array2 option \<Rightarrow> var_func option \<Rightarrow> array2 \<Rightarrow> error + array2" where
  "mlpca_var_array var_array var_func_arg data0 =
     (case var_array of
        Some va \<Rightarrow>
          (case var_func_arg of
             Some vf \<Rightarrow> Inl ValueError_var_both
           | None \<Rightarrow>
               if (length va, ncols va) \<noteq> (length data0, ncols data0)
               then Inl ValueError_var_array_shape else Inr va)
      | None \<Rightarrow>
          (case var_func_arg of
             None \<Rightarrow> Inr data0
           | Some (VarCallable f) \<Rightarrow> f data0
           | Some (VarCoefficients p) \<Rightarrow> Inr (map (map (np_polyval p)) data0)
           | Some VarOther \<Rightarrow> Inl ValueError_var_func))"

text \<open>Lines 494-519: an estimator in the manner of scikit-learn.\<close>

definition fit_sklearn ::
  "algorithm \<Rightarrow> Estimator \<Rightarrow> decomposition_args \<Rightarrow> array2 \<Rightarrow> error + Fit" where
  "fit_sklearn algorithm estim a data0 =
     (case (if has_fit_transform estim
            then (case fit_transform estim data0 of Inl e \<Rightarrow> Inl e | Inr l \<Rightarrow> Inr (Some l))
            else (case algorithm of
                    AlgObject alg \<Rightarrow>
                      if has_fit alg \<and> has_transform alg
                      then (case fit alg data0 of
                              Inl e \<Rightarrow> Inl e
                            | Inr u \<Rightarrow>
                               (case transform alg data0 of
                                  Inl e \<Rightarrow> Inl e
                                | Inr l \<Rightarrow> Inr (Some l)))
                      else Inr None
                  | AlgName name \<Rightarrow> Inr None)) of
        Inl e \<Rightarrow> Inl e
      | Inr loadings0 \<Rightarrow>
         (case components_attr estim of
            None \<Rightarrow> Inl AttributeError_components
          | Some components \<Rightarrow>
              Inr \<lparr> fit_factors = transpose components,
                    fit_loadings = loadings0,
                    fit_explained_variance = explained_variance_attr estim,
                    fit_mean = mean_attr estim,
                    fit_centre =
                      (if mean_attr estim \<noteq> None then Some ''samples'' else kw_centre a),
                    fit_to_return =
                      (if kw_return_info a then ReturnEstimator estim else ReturnNone) \<rparr>))"

text \<open>
  Lines 409-522: the chain of \<^verbatim>\<open>if algorithm == ...\<close>. For the four algorithms that
  need it \<^verbatim>\<open>output_dimension\<close> is not \<^verbatim>\<open>None\<close> here, \<open>checks\<close> having passed; the
  model returns the error of that check in the case that cannot arise.
\<close>

definition fit_model ::
  "Backends \<Rightarrow> decomposition_args \<Rightarrow> Checked \<Rightarrow> array2 \<Rightarrow> error + Fit" where
  "fit_model B a c data0 =
     (let algorithm = c_algorithm c in
      if alg_is algorithm ''svd'' then
        (case svd_pca B data0 (c_svd_solver c) (kw_output_dimension a) (kw_centre a)
                (kw_auto_transpose a) of
           Inl e \<Rightarrow> Inl e
         | Inr (factors0, loadings0, explained_variance0, mean0) \<Rightarrow>
             Inr \<lparr> fit_factors = factors0, fit_loadings = Some loadings0,
                   fit_explained_variance = explained_variance0, fit_mean = mean0,
                   fit_centre = kw_centre a, fit_to_return = ReturnNone \<rparr>)
      else if alg_is algorithm ''mlpca'' then
        (case mlpca_var_array (kw_var_array a) (c_var_func c) data0 of
           Inl e \<Rightarrow> Inl e
         | Inr var_array \<Rightarrow>
            (case kw_output_dimension a of
               None \<Rightarrow> Inl ValueError_output_dimension
             | Some od \<Rightarrow>
                (case mlpca B data0 var_array od (c_svd_solver c) of
                   Inl e \<Rightarrow> Inl e
                 | Inr (U, S, V) \<Rightarrow> from_usv U S V (kw_centre a) ReturnNone)))
      else if alg_is algorithm ''rpca'' then
        (case kw_output_dimension a of
           None \<Rightarrow> Inl ValueError_output_dimension
         | Some od \<Rightarrow>
            (case rpca_godec B data0 od of
               Inl e \<Rightarrow> Inl e
             | Inr (X, E, U, S, V) \<Rightarrow>
                 from_usv U S V (kw_centre a)
                   (if kw_return_info a then ReturnXE X E else ReturnNone)))
      else if alg_is algorithm ''orpca'' then
        (case kw_output_dimension a of
           None \<Rightarrow> Inl ValueError_output_dimension
         | Some od \<Rightarrow>
            if kw_return_info a then
              (case orpca_store_error B data0 od of
                 Inl e \<Rightarrow> Inl e
               | Inr (X, E, U, S, V) \<Rightarrow> from_usv U S V (kw_centre a) (ReturnXE X E))
            else
              (case orpca B data0 od of
                 Inl e \<Rightarrow> Inl e
               | Inr (L, R) \<Rightarrow>
                   Inr \<lparr> fit_factors = transpose R, fit_loadings = Some L,
                         fit_explained_variance = None, fit_mean = None,
                         fit_centre = kw_centre a, fit_to_return = ReturnNone \<rparr>))
      else if alg_is algorithm ''ornmf'' then
        (case kw_output_dimension a of
           None \<Rightarrow> Inl ValueError_output_dimension
         | Some od \<Rightarrow>
            if kw_return_info a then
              (case ornmf_store_error B data0 od of
                 Inl e \<Rightarrow> Inl e
               | Inr (X, E, W, H) \<Rightarrow>
                   Inr \<lparr> fit_factors = transpose H, fit_loadings = Some W,
                         fit_explained_variance = None, fit_mean = None,
                         fit_centre = kw_centre a, fit_to_return = ReturnXE X E \<rparr>)
            else
              (case ornmf B data0 od of
                 Inl e \<Rightarrow> Inl e
               | Inr (W, H) \<Rightarrow>
                   Inr \<lparr> fit_factors = transpose H, fit_loadings = Some W,
                         fit_explained_variance = None, fit_mean = None,
                         fit_centre = kw_centre a, fit_to_return = ReturnNone \<rparr>))
      else
        (case c_estim c of
           Some estim \<Rightarrow> fit_sklearn algorithm estim a data0
         | None \<Rightarrow> Inl ValueError_not_recognised))"

text \<open>Lines 527-531: the ratio and the number of significant components.\<close>

definition variance_summary ::
  "Signal \<Rightarrow> array1 option \<Rightarrow> error + (array1 option \<times> nat option)" where
  "variance_summary self explained_variance0 =
     (case explained_variance0 of
        None \<Rightarrow> Inr (None, None)
      | Some ev \<Rightarrow>
          let ratio = map (\<lambda>x. f_div x (np_sum ev)) ev
          in (case estimate_elbow_position (Some ratio) 20 self of
                Inl e \<Rightarrow> Inl e
              | Inr k \<Rightarrow> Inr (Some ratio, Some (k + 1))))"

subsection \<open>\<^verbatim>\<open>decomposition\<close>: storing the results\<close>

text \<open>
  From line 533 on the guarded block only changes \<^verbatim>\<open>target\<close>. A step takes the
  \<^verbatim>\<open>target\<close> it finds and returns the one it leaves, with the error if it raised;
  \<open>and_then\<close> runs the next step unless the one before raised.
\<close>

definition and_then ::
  "(error + 'a) \<times> 's \<Rightarrow> ('a \<Rightarrow> 's \<Rightarrow> (error + 'b) \<times> 's) \<Rightarrow> (error + 'b) \<times> 's" where
  "and_then r f = (case r of (Inl e, s) \<Rightarrow> (Inl e, s) | (Inr x, s) \<Rightarrow> f x s)"

text \<open>\<^verbatim>\<open>LearningResults.crop_decomposition_dimension\<close> (lines 1822-1845), on eager
  arrays.\<close>

definition crop_decomposition_dimension ::
  "int \<Rightarrow> LearningResults \<Rightarrow> (error + unit) \<times> LearningResults" where
  "crop_decomposition_dimension n lr =
     (case loadings lr of
        None \<Rightarrow> (Inl TypeError_NoneType, lr)
      | Some L \<Rightarrow>
          let lr1 = lr\<lparr> loadings := Some (map (py_slice_to n) L) \<rparr>;
              lr2 = (case explained_variance lr1 of
                       None \<Rightarrow> lr1
                     | Some ev \<Rightarrow> lr1\<lparr> explained_variance := Some (py_slice_to n ev) \<rparr>)
          in (case factors lr2 of
                None \<Rightarrow> (Inl TypeError_NoneType, lr2)
              | Some F \<Rightarrow> (Inr (), lr2\<lparr> factors := Some (map (py_slice_to n) F) \<rparr>)))"

text \<open>Lines 533-556. The assignment of line 535 raises UnboundLocalError when
  \<^verbatim>\<open>loadings\<close> was never bound, after \<^verbatim>\<open>target.factors\<close> has been set.\<close>

definition store_results ::
  "decomposition_args \<Rightarrow> Checked \<Rightarrow> Signal \<Rightarrow> Fit \<Rightarrow> array1 option \<Rightarrow> nat option
     \<Rightarrow> LearningResults \<Rightarrow> (error + unit) \<times> LearningResults" where
  "store_results a c self ft explained_variance_ratio0 number_significant_components0 target =
     (let target1 = target\<lparr> factors := Some (fit_factors ft) \<rparr>
      in (case fit_loadings ft of
            None \<Rightarrow> (Inl UnboundLocalError_loadings, target1)
          | Some loadings0 \<Rightarrow>
              let target2 = target1
                    \<lparr> loadings := Some loadings0,
                      explained_variance := fit_explained_variance ft,
                      explained_variance_ratio := explained_variance_ratio0,
                      number_significant_components := number_significant_components0,
                      decomposition_algorithm := Some (c_algorithm c),
                      poissonian_noise_normalized := Some (c_normalize_poissonian_noise c),
                      output_dimension := kw_output_dimension a,
                      unfolded := Some (unfolded4decomposition self),
                      centre := fit_centre ft,
                      mean := fit_mean ft \<rparr>
              in and_then
                   (case kw_output_dimension a of
                      None \<Rightarrow> (Inr (), target2)
                    | Some od \<Rightarrow>
                        if od \<noteq> 0 \<and> int (ncols (fit_factors ft)) \<noteq> od
                        then crop_decomposition_dimension od target2
                        else (Inr (), target2))
                   (\<lambda>u target3.
                      let target4 = target3\<lparr> unmixing_matrix := None, bss_algorithm := None \<rparr>
                      in (Inr (),
                          if unfolded4decomposition self
                          then target4\<lparr> original_shape := Some (folding_original_shape self) \<rparr>
                          else target4))))"

subsection \<open>\<^verbatim>\<open>decomposition\<close>: reprojection, rescaling and masks\<close>

text \<open>\<^verbatim>\<open>A @ B\<close> for two-dimensional arrays; the inner dimensions must agree.\<close>

definition matmul :: "array2 \<Rightarrow> array2 \<Rightarrow> error + array2" where
  "matmul A B =
     (if ncols A = length B
      then Inr (map (\<lambda>r. map (\<lambda>col. np_sum (map2 f_mul r col)) (transpose B)) A)
      else Inl ValueError_matmul)"

text \<open>\<^verbatim>\<open>M - mean\<close>, where \<^verbatim>\<open>mean\<close> is the number 0 when it was \<^verbatim>\<open>None\<close>
  (lines 559-560).\<close>

definition subtract_mean :: "array2 \<Rightarrow> array1 option \<Rightarrow> error + array2" where
  "subtract_mean M mean0 =
     (case mean0 of
        None \<Rightarrow> Inr (map (map (\<lambda>x. f_sub x (Fin 0))) M)
      | Some mu \<Rightarrow> broadcast_rows f_sub M mu)"

definition in_list :: "string option \<Rightarrow> string list \<Rightarrow> bool" where
  "in_list x names = (case x of None \<Rightarrow> False | Some v \<Rightarrow> v \<in> set names)"

text \<open>Lines 562-567: reprojection on the navigation axis.\<close>

definition reproject_navigation ::
  "Backends \<Rightarrow> decomposition_args \<Rightarrow> Checked \<Rightarrow> array2 \<Rightarrow> selector \<Rightarrow> Fit
     \<Rightarrow> LearningResults \<Rightarrow> (error + unit) \<times> LearningResults" where
  "reproject_navigation B a c dc sm ft target =
     (if in_list (kw_reproject a) [''navigation'', ''both''] then
        (case take_cols sm dc of
           Inl e \<Rightarrow> (Inl e, target)
         | Inr cols \<Rightarrow>
            (case (case c_estim c of
                     None \<Rightarrow>
                       (case subtract_mean cols (fit_mean ft) of
                          Inl e \<Rightarrow> Inl e
                        | Inr centred \<Rightarrow> matmul centred (fit_factors ft))
                   | Some estim \<Rightarrow> transform estim cols) of
               Inl e \<Rightarrow> (Inl e, target)
             | Inr loadings1 \<Rightarrow> (Inr (), target\<lparr> loadings := Some loadings1 \<rparr>)))
      else (Inr (), target))"

text \<open>Lines 569-584: reprojection on the signal axis; the step returns the value of
  the local \<^verbatim>\<open>reproject\<close> it leaves.\<close>

definition reproject_signal ::
  "Backends \<Rightarrow> decomposition_args \<Rightarrow> Checked \<Rightarrow> array2 \<Rightarrow> selector \<Rightarrow> Fit
     \<Rightarrow> LearningResults \<Rightarrow> (error + string option) \<times> LearningResults" where
  "reproject_signal B a c dc nm ft target =
     (if in_list (kw_reproject a) [''signal'', ''both''] then
        (case c_estim c of
           None \<Rightarrow>
            (case fit_loadings ft of
               None \<Rightarrow> (Inl UnboundLocalError_loadings, target)
             | Some loadings0 \<Rightarrow>
                (case np_linalg_pinv B loadings0 of
                   Inl e \<Rightarrow> (Inl e, target)
                 | Inr pinv \<Rightarrow>
                    (case take_sel nm dc of
                       Inl e \<Rightarrow> (Inl e, target)
                     | Inr rows \<Rightarrow>
                        (case subtract_mean rows (fit_mean ft) of
                           Inl e \<Rightarrow> (Inl e, target)
                         | Inr centred \<Rightarrow>
                            (case matmul pinv centred of
                               Inl e \<Rightarrow> (Inl e, target)
                             | Inr product \<Rightarrow>
                                 (Inr (kw_reproject a),
                                  target\<lparr> factors := Some (transpose product) \<rparr>))))))
         | Some estim \<Rightarrow>
             (Inr (if kw_reproject a = Some ''both'' then Some ''signal'' else None), target))
      else (Inr (kw_reproject a), target))"

text \<open>\<^verbatim>\<open>M[:] *= v\<close> for a column \<open>v\<close> (an array of shape \<open>(n, 1)\<close>): row \<open>i\<close> is
  multiplied by \<open>v[i]\<close>; in place, so \<open>M\<close> must have \<open>n\<close> rows unless \<open>n\<close> is 1.\<close>

definition imul_column :: "array2 \<Rightarrow> array1 \<Rightarrow> error + array2" where
  "imul_column M v =
     (if length M = length v then Inr (map2 (\<lambda>r x. map (\<lambda>y. f_mul y x) r) M v)
      else if length v = 1 then Inr (map (map (\<lambda>y. f_mul y (hd v))) M)
      else Inl ValueError_broadcast)"

text \<open>Lines 586-589: \<^verbatim>\<open>target.factors[:] *= self._root_bH.T\<close> and
  \<^verbatim>\<open>target.loadings[:] *= self._root_aG\<close>.\<close>

definition rescale_results ::
  "Checked \<Rightarrow> Signal \<Rightarrow> LearningResults \<Rightarrow> (error + unit) \<times> LearningResults" where
  "rescale_results c self target =
     (if c_normalize_poissonian_noise c then
        (case (factors target, root_bH self) of
           (Some F, Some rb) \<Rightarrow>
             (case imul_column F rb of
                Inl e \<Rightarrow> (Inl e, target)
              | Inr F' \<Rightarrow>
                 let target1 = target\<lparr> factors := Some F' \<rparr>
                 in (case (loadings target1, root_aG self) of
                       (Some L, Some ra) \<Rightarrow>
                         (case imul_column L ra of
                            Inl e \<Rightarrow> (Inl e, target1)
                          | Inr L' \<Rightarrow> (Inr (), target1\<lparr> loadings := Some L' \<rparr>))
                     | (Some L, None) \<Rightarrow> (Inl AttributeError_root, target1)
                     | (None, ra) \<Rightarrow> (Inl TypeError_NoneType, target1)))
         | (Some F, None) \<Rightarrow> (Inl AttributeError_root, target)
         | (None, rb) \<Rightarrow> (Inl TypeError_NoneType, target))
      else (Inr (), target))"

text \<open>
  Lines 598-601 and 609-612: an array of \<open>n\<close> rows, zero at first, receives the rows
  of the result at the included positions and NaN at the others. \<open>m\<close> is the inclusion
  mask. The assignment broadcasts a single row and raises ValueError for any other
  number of rows than the number of included positions.
\<close>

definition expand_with_nan :: "bool list \<Rightarrow> nat \<Rightarrow> array2 \<Rightarrow> error + array2" where
  "expand_with_nan m n rows =
     (let k = ncols rows;
          zeros = replicate n (replicate k (Fin 0));
          included = length (filter id m)
      in if length m \<noteq> n then Inl IndexError_boolean_index
         else if length rows \<noteq> included \<and> length rows \<noteq> 1 then Inl ValueError_broadcast
         else
           let filled = put_bool m zeros
                          (if length rows = included then rows
                           else replicate included (hd rows))
           in Inr (put_bool (map Not m) filled (replicate (n - included) (replicate k NaN))))"

text \<open>Lines 592-601: the signal mask is stored as it was given, and the factors are
  expanded unless they were reprojected.\<close>

definition store_signal_mask ::
  "Signal \<Rightarrow> array2 \<Rightarrow> selector \<Rightarrow> string option
     \<Rightarrow> LearningResults \<Rightarrow> (error + unit) \<times> LearningResults" where
  "store_signal_mask self dc sm reproject target =
     (case sm of
        SliceAll \<Rightarrow> (Inr (), target)
      | BoolIndex m \<Rightarrow>
         (case np_reshape (signal_shape_in_array self) m of
            Inl e \<Rightarrow> (Inl e, target)
          | Inr reshaped \<Rightarrow>
             let target1 = target\<lparr> signal_mask := Some (np_invert reshaped) \<rparr>
             in if \<not> in_list reproject [''both'', ''signal''] then
                  (case factors target1 of
                     None \<Rightarrow> (Inl AttributeError_NoneType, target1)
                   | Some F \<Rightarrow>
                      (case expand_with_nan m (ncols dc) F of
                         Inl e \<Rightarrow> (Inl e, target1)
                       | Inr F' \<Rightarrow> (Inr (), target1\<lparr> factors := Some F' \<rparr>)))
                else (Inr (), target1)))"

text \<open>Lines 603-612: the same for the navigation mask and the loadings.\<close>

definition store_navigation_mask ::
  "Signal \<Rightarrow> array2 \<Rightarrow> selector \<Rightarrow> string option
     \<Rightarrow> LearningResults \<Rightarrow> (error + unit) \<times> LearningResults" where
  "store_navigation_mask self dc nm reproject target =
     (case nm of
        SliceAll \<Rightarrow> (Inr (), target)
      | BoolIndex m \<Rightarrow>
         (case np_reshape (navigation_shape_in_array self) m of
            Inl e \<Rightarrow> (Inl e, target)
          | Inr reshaped \<Rightarrow>
             let target1 = target\<lparr> navigation_mask := Some (np_invert reshaped) \<rparr>
             in if \<not> in_list reproject [''both'', ''navigation''] then
                  (case loadings target1 of
                     None \<Rightarrow> (Inl AttributeError_NoneType, target1)
                   | Some L \<Rightarrow>
                      (case expand_with_nan m (length dc) L of
                         Inl e \<Rightarrow> (Inl e, target1)
                       | Inr L' \<Rightarrow> (Inr (), target1\<lparr> loadings := Some L' \<rparr>)))
                else (Inr (), target1)))"

text \<open>Lines 533-612 in order.\<close>

definition after_fit ::
  "Backends \<Rightarrow> decomposition_args \<Rightarrow> Checked \<Rightarrow> Signal \<Rightarrow> selector \<Rightarrow> selector \<Rightarrow> Fit
     \<Rightarrow> array1 option \<Rightarrow> nat option \<Rightarrow> LearningResults \<Rightarrow> (error + unit) \<times> LearningResults" where
  "after_fit B a c self nm sm ft ratio nsc target =
     and_then (store_results a c self ft ratio nsc target) (\<lambda>u1 target1.
     and_then (reproject_navigation B a c (data self) sm ft target1) (\<lambda>u2 target2.
     and_then (reproject_signal B a c (data self) nm ft target2) (\<lambda>reproject target3.
     and_then (rescale_results c self target3) (\<lambda>u4 target4.
     and_then (store_signal_mask self (data self) sm reproject target4) (\<lambda>u5 target5.
     store_navigation_mask self (data self) nm reproject target5)))))"

subsection \<open>\<^verbatim>\<open>decomposition\<close>: the guarded block and the method\<close>

text \<open>Lines 366-375: the pre-treatment.\<close>

definition pre_treatment ::
  "decomposition_args \<Rightarrow> Checked \<Rightarrow> bool list option \<Rightarrow> bool list option
     \<Rightarrow> Signal \<Rightarrow> (error + unit) \<times> Signal" where
  "pre_treatment a c navigation_mask0 signal_mask0 self =
     (if c_normalize_poissonian_noise c then
        (if kw_centre a \<noteq> None then (Inl ValueError_centre, self)
         else normalize_poissonian_noise navigation_mask0 signal_mask0 self)
      else (Inr (), self))"

text \<open>
  The body of the \<^verbatim>\<open>try\<close> statement (lines 355-612). The result is the value of
  \<^verbatim>\<open>to_return\<close> or the error raised, with the signal and the \<^verbatim>\<open>target\<close> as the body
  leaves them. The local \<^verbatim>\<open>data_\<close> of the source is \<open>data0\<close> here.
\<close>

definition guarded_block ::
  "Backends \<Rightarrow> decomposition_args \<Rightarrow> Checked \<Rightarrow> Signal \<Rightarrow> LearningResults
     \<Rightarrow> (error + return_info) \<times> Signal \<times> LearningResults" where
  "guarded_block B a c self target =
     (let navigation_mask0 = map_option ravel (kw_navigation_mask a);
          signal_mask0 = map_option ravel (kw_signal_mask a)
      in (case pre_treatment a c navigation_mask0 signal_mask0 self of
            (Inl e, self1) \<Rightarrow> (Inl e, self1, target)
          | (Inr u, self1) \<Rightarrow>
              let nm = include_selector navigation_mask0;
                  sm = include_selector signal_mask0
              in (case take_block sm nm (data self1) of
                    Inl e \<Rightarrow> (Inl e, self1, target)
                  | Inr data0 \<Rightarrow>
                     (case fit_model B a c data0 of
                        Inl e \<Rightarrow> (Inl e, self1, target)
                      | Inr ft \<Rightarrow>
                         (case variance_summary self1 (fit_explained_variance ft) of
                            Inl e \<Rightarrow> (Inl e, self1, target)
                          | Inr (ratio, nsc) \<Rightarrow>
                             (case after_fit B a c self1 nm sm ft ratio nsc target of
                                (Inl e, target1) \<Rightarrow> (Inl e, self1, target1)
                              | (Inr u1, target1) \<Rightarrow>
                                  (Inr (fit_to_return ft), self1, target1)))))))"

text \<open>The \<^verbatim>\<open>finally\<close> clause (lines 614-622): fold, copy the attributes of
  \<^verbatim>\<open>target\<close> into \<^verbatim>\<open>self.learning_results\<close>, undo the pre-treatments if the data was
  copied.\<close>

definition finally_clause ::
  "decomposition_args \<Rightarrow> LearningResults \<Rightarrow> Signal \<Rightarrow> (error + unit) \<times> Signal" where
  "finally_clause a target self =
     (let self1 = (if unfolded4decomposition self
                   then self\<lparr> unfolded4decomposition := False \<rparr> else self);
          self2 = self1\<lparr> learning_results := dict_update (learning_results self1) target \<rparr>
      in if kw_copy a then undo_treatments self2 else (Inr (), self2))"

text \<open>
  \<^verbatim>\<open>MVA.decomposition\<close> (lines 97-628): the checks, the copy of the data if
  \<^verbatim>\<open>copy\<close> is set and the unfolding (\<open>before_block\<close>, lines 343-353), the guarded
  block on a fresh \<^verbatim>\<open>target\<close>, and the \<^verbatim>\<open>finally\<close> clause, which runs whether the
  block raised or not. An error of the \<^verbatim>\<open>finally\<close> clause replaces the outcome of the
  block.
\<close>

definition before_block :: "decomposition_args \<Rightarrow> Signal \<Rightarrow> Signal" where
  "before_block a self =
     (let self1 = (if kw_copy a
                   then self\<lparr> data_before_treatments := Some (data self) \<rparr> else self)
      in self1\<lparr> unfolded4decomposition := needs_unfold self1 \<rparr>)"

definition decomposition ::
  "Backends \<Rightarrow> decomposition_args \<Rightarrow> Signal \<Rightarrow> (error + return_info) \<times> Signal" where
  "decomposition B a self =
     (case checks B a self of
        Inl e \<Rightarrow> (Inl e, self)
      | Inr c \<Rightarrow>
         (case guarded_block B a c (before_block a self) LearningResults_init of
            (outcome, self3, target1) \<Rightarrow>
              (case finally_clause a target1 self3 of
                 (Inl e, self4) \<Rightarrow> (Inl e, self4)
               | (Inr u, self4) \<Rightarrow> (outcome, self4))))"

text \<open>Lines 546-547 on the explained variance: what \<^verbatim>\<open>crop_decomposition_dimension\<close>
  leaves of a vector \<open>v\<close> when the factors have \<open>k\<close> columns.\<close>

definition cropped :: "int option \<Rightarrow> nat \<Rightarrow> 'a list \<Rightarrow> 'a list" where
  "cropped output_dimension_arg k v =
     (case output_dimension_arg of
        None \<Rightarrow> v
      | Some od \<Rightarrow> if od \<noteq> 0 \<and> int k \<noteq> od then py_slice_to od v else v)"

text \<open>The algorithm after the renaming of lines 238-268, the names the chain of lines
  409-493 knows, and an algorithm that is neither one of them nor usable as an estimator
  (line 521).\<close>

definition renamed_algorithm :: "decomposition_args \<Rightarrow> algorithm" where
  "renamed_algorithm a = fst (rename_deprecated (kw_algorithm a) (kw_svd_solver a))"

definition builtin_algorithms :: "string list" where
  "builtin_algorithms = [''svd'', ''mlpca'', ''rpca'', ''orpca'', ''ornmf'']"

definition not_recognised :: "Backends \<Rightarrow> decomposition_args \<Rightarrow> bool" where
  "not_recognised B a \<longleftrightarrow>
     \<not> alg_in (renamed_algorithm a) builtin_algorithms
     \<and> sklearn_estimator B (renamed_algorithm a) (kw_output_dimension a) = None"

subsection \<open>Predicates used in the proofs\<close>

text \<open>\<open>t'\<close> differs from \<open>t\<close> at most in the two arrays of components and the
  two masks; in them only.\<close>

definition rest_kept :: "LearningResults \<Rightarrow> LearningResults \<Rightarrow> bool" where
  "rest_kept t t' \<longleftrightarrow>
     explained_variance t' = explained_variance t
   \<and> explained_variance_ratio t' = explained_variance_ratio t
   \<and> number_significant_components t' = number_significant_components t
   \<and> decomposition_algorithm t' = decomposition_algorithm t
   \<and> poissonian_noise_normalized t' = poissonian_noise_normalized t
   \<and> output_dimension t' = output_dimension t
   \<and> mean t' = mean t
   \<and> centre t' = centre t
   \<and> bss_algorithm t' = bss_algorithm t
   \<and> unmixing_matrix t' = unmixing_matrix t
   \<and> bss_factors t' = bss_factors t
   \<and> bss_loadings t' = bss_loadings t
   \<and> unfolded t' = unfolded t
   \<and> original_shape t' = original_shape t
   \<and> on_loadings t' = on_loadings t"

definition bss_block_kept :: "LearningResults \<Rightarrow> LearningResults \<Rightarrow> bool" where
  "bss_block_kept t t' \<longleftrightarrow>
     bss_factors t' = bss_factors t \<and> bss_loadings t' = bss_loadings t
     \<and> (unmixing_matrix t = None \<longrightarrow> unmixing_matrix t' = None)
     \<and> (bss_algorithm t = None \<longrightarrow> bss_algorithm t' = None)"

definition masks_kept :: "LearningResults \<Rightarrow> LearningResults \<Rightarrow> bool" where
  "masks_kept t t' \<longleftrightarrow>
     navigation_mask t' = navigation_mask t \<and> signal_mask t' = signal_mask t"

text \<open>The mask stored for an axis: none for \<^verbatim>\<open>slice(None)\<close>, else the negation of the
  inclusion selector in the shape of the axis.\<close>

definition stored_mask :: "nat list \<Rightarrow> selector \<Rightarrow> bool_ndarray option" where
  "stored_mask shape sel =
     (case sel of SliceAll \<Rightarrow> None | BoolIndex m \<Rightarrow> Some (shape, map Not m))"

subsection \<open>Concrete inputs\<close>

text \<open>A float signal whose unfolded data is \<open>dc\<close>, with one navigation and one
  signal axis, nothing stored yet.\<close>

definition signal_of :: "array2 \<Rightarrow> Signal" where
  "signal_of dc =
     \<lparr> data = dc, dtype_is_float = True, navigation_size = length dc,
       navigation_shape_in_array = [length dc], signal_shape_in_array = [ncols dc],
       needs_unfold = False, folding_original_shape = [length dc, ncols dc],
       data_before_treatments = None, root_aG = None, root_bH = None,
       unfolded4decomposition = False, learning_results = LearningResults_init \<rparr>"

text \<open>The default arguments of \<^verbatim>\<open>decomposition\<close> (lines 97-114).\<close>

definition default_args :: decomposition_args where
  "default_args =
     \<lparr> kw_normalize_poissonian_noise = False, kw_algorithm = AlgName ''svd'',
       kw_output_dimension = None, kw_centre = None, kw_auto_transpose = True,
       kw_navigation_mask = None, kw_signal_mask = None, kw_var_array = None,
       kw_var_func = None, kw_reproject = None, kw_return_info = False,
       kw_svd_solver = ''auto'', kw_copy = True, kw_polyfit = None \<rparr>"

text \<open>An estimator without any method, for the names of scikit-learn.\<close>

definition no_estimator :: Estimator where
  "no_estimator =
     \<lparr> has_fit_transform = False, has_fit = False, has_transform = False,
       fit_transform = (\<lambda>d. Inl (BackendError ''fit_transform'')),
       fit = (\<lambda>d. Inl (BackendError ''fit'')),
       transform = (\<lambda>d. Inl (BackendError ''transform'')),
       components_attr = None, explained_variance_attr = None, mean_attr = None \<rparr>"

text \<open>Collaborators that all raise, scikit-learn not installed.\<close>

definition failing_backends :: Backends where
  "failing_backends =
     \<lparr> svd_pca = (\<lambda>d solver od ce tr. Inl (BackendError ''svd_pca'')),
       mlpca = (\<lambda>d va od solver. Inl (BackendError ''mlpca'')),
       rpca_godec = (\<lambda>d od. Inl (BackendError ''rpca_godec'')),
       orpca_store_error = (\<lambda>d od. Inl (BackendError ''orpca'')),
       orpca = (\<lambda>d od. Inl (BackendError ''orpca'')),
       ornmf_store_error = (\<lambda>d od. Inl (BackendError ''ornmf'')),
       ornmf = (\<lambda>d od. Inl (BackendError ''ornmf'')),
       sklearn_installed = False,
       decomposition_algorithms = (\<lambda>name od. no_estimator),
       np_linalg_pinv = (\<lambda>M. Inl (BackendError ''pinv'')) \<rparr>"

text \<open>Collaborators of which \<^verbatim>\<open>svd_pca\<close> returns one component without explained
  variance, and \<^verbatim>\<open>rpca_godec\<close> returns two components with the singular values 2 and
  2, the matrix \<open>U\<close> of three rows and the matrix \<open>V\<close> of two rows.\<close>

definition example_backends :: Backends where
  "example_backends =
     failing_backends
       \<lparr> svd_pca := (\<lambda>d solver od ce tr.
            Inr (replicate (ncols d) [Fin 1], replicate (length d) [Fin 1], None, None)),
         rpca_godec := (\<lambda>d od.
            Inr (d, map (map (\<lambda>x. Fin 0)) d,
                 [[Fin 1, Fin 0], [Fin 0, Fin 1], [Fin 1, Fin 1]],
                 [Fin 2, Fin 2],
                 [[Fin 1, Fin 0], [Fin 0, Fin 1]])) \<rparr>"

text \<open>Results of an earlier decomposition followed by a blind source separation.\<close>

definition earlier_results :: LearningResults where
  "earlier_results =
     LearningResults_init
       \<lparr> factors := Some [[Fin 1], [Fin 1]], loadings := Some [[Fin 2], [Fin 3]],
         decomposition_algorithm := Some (AlgName ''svd''),
         bss_algorithm := Some ''orthomax'', unmixing_matrix := Some [[Fin 1]],
         bss_factors := Some [[Fin 1], [Fin 1]], bss_loadings := Some [[Fin 2], [Fin 3]],
         on_loadings := Some False \<rparr>"

text \<open>A signal of two observations that already holds \<open>earlier_results\<close>, and one
  of three observations and two channels.\<close>

definition analysed_signal :: Signal where
  "analysed_signal =
     (signal_of [[Fin 2, Fin 2], [Fin 2, Fin 2]])\<lparr> learning_results := earlier_results \<rparr>"

definition three_by_two :: Signal where
  "three_by_two = signal_of [[Fin 1, Fin 2], [Fin 3, Fin 4], [Fin 5, Fin 6]]"

definition normalizing_args :: decomposition_args where
  "normalizing_args = default_args\<lparr> kw_normalize_poissonian_noise := True \<rparr>"

definition masked_args :: decomposition_args where
  "masked_args =
     default_args\<lparr> kw_navigation_mask := Some ([3], [False, True, False]),
                    kw_signal_mask := Some ([2], [True, False]) \<rparr>"

definition rpca_args :: decomposition_args where
  "rpca_args = default_args\<lparr> kw_algorithm := AlgName ''rpca'', kw_output_dimension := Some 2 \<rparr>"

definition rpca_without_dimension :: decomposition_args where
  "rpca_without_dimension = default_args\<lparr> kw_algorithm := AlgName ''rpca'' \<rparr>"

definition mlpca_with_both :: decomposition_args where
  "mlpca_with_both =
     default_args\<lparr> kw_algorithm := AlgName ''mlpca'', kw_output_dimension := Some 2,
                    kw_var_array := Some [[Fin 1, Fin 2], [Fin 3, Fin 4], [Fin 5, Fin 6]],
                    kw_var_func := Some VarOther \<rparr>"

definition unknown_algorithm :: decomposition_args where
  "unknown_algorithm = default_args\<lparr> kw_algorithm := AlgName ''pca'' \<rparr>"

text \<open>A store after a blind source separation with two components, whose BSS factors
  have the columns \<open>[-5, 1, 2]\<close> and \<open>[-1, 5, 2]\<close>.\<close>

definition separated_results :: LearningResults where
  "separated_results =
     LearningResults_init
       \<lparr> bss_factors := Some [[Fin (- 5), Fin (- 1)], [Fin 1, Fin 5], [Fin 2, Fin 2]],
         bss_loadings := Some [[Fin 1, Fin 3], [Fin 2, Fin 4]],
         unmixing_matrix := Some [[Fin 1, Fin 2], [Fin 3, Fin 4]] \<rparr>"

text \<open>A store with two components, two signal channels and one observation.\<close>

definition small_results :: LearningResults where
  "small_results =
     LearningResults_init
       \<lparr> factors := Some [[Fin 1, Fin 2], [Fin 3, Fin 4]],
         loadings := Some [[Fin 5, Fin 6]] \<rparr>"

section \<open>Properties\<close>

text \<open>The definitions a call of \<^verbatim>\<open>decomposition\<close> on a concrete input unfolds.\<close>

lemmas evaluation_elbow = estimate_elbow_position_def elbow_position_of_curve_def py_index_def
  py_slice_to_def np_arange_def broadcast2_def np_argmax_def np_clip_lower_def np_maximum_def
  is_nan_def f_sub_def argmax_better_def

lemmas evaluation = decomposition_def checks_def rename_deprecated_def algorithms_deprecated_def
  alg_in_def alg_is_def algorithms_require_dimension_def algorithms_sklearn_def
  sklearn_estimator_def before_block_def guarded_block_def pre_treatment_def
  include_selector_def take_block_def take_sel_def fit_model_def variance_summary_def
  after_fit_def and_then_def store_results_def reproject_navigation_def reproject_signal_def
  rescale_results_def store_signal_mask_def store_navigation_mask_def in_list_def
  finally_clause_def undo_treatments_def dict_update_def ravel_def
  default_args_def example_backends_def failing_backends_def no_estimator_def
  earlier_results_def signal_of_def LearningResults_init_def ncols_def Let_def
  from_usv_def broadcast_rows_def expand_with_nan_def np_reshape_def np_invert_def
  crop_decomposition_dimension_def analysed_signal_def three_by_two_def normalizing_args_def
  masked_args_def rpca_args_def normalize_poissonian_noise_def store_block_def
  rpca_without_dimension_def mlpca_with_both_def unknown_algorithm_def mlpca_var_array_def
  divide_outer_def put_sel_def np_minimum_def

subsection \<open>Facts about the floating-point order and \<^verbatim>\<open>np.min\<close>\<close>

lemma f_le_refl: "x \<noteq> NaN \<Longrightarrow> f_le x x"
  by (cases x) auto

lemma f_le_trans: "f_le x y \<Longrightarrow> f_le y z \<Longrightarrow> f_le x z"
  by (cases x; cases y; cases z) auto

lemma f_le_total: "x \<noteq> NaN \<Longrightarrow> y \<noteq> NaN \<Longrightarrow> f_le x y \<or> f_le y x"
  by (cases x; cases y) auto

lemma f_less_not_le: "f_less x y \<Longrightarrow> \<not> f_le y x"
  by (cases x; cases y) auto

lemma f_less_not_nan: "f_less x y \<Longrightarrow> y \<noteq> NaN"
  by (cases x; cases y) auto

lemma np_min_nan_free:
  "xs \<noteq> [] \<Longrightarrow> \<forall>x\<in>set xs. x \<noteq> NaN \<Longrightarrow>
   \<exists>m. np_min xs = Inr m \<and> m \<in> set xs \<and> (\<forall>x\<in>set xs. f_le m x)"
proof (induction xs rule: np_min.induct)
  case 1
  then show ?case by simp
next
  case (2 x)
  then show ?case by (simp add: f_le_refl)
next
  case (3 x y ys)
  then obtain m where m: "np_min (y # ys) = Inr m" "m \<in> set (y # ys)"
      "\<forall>z\<in>set (y # ys). f_le m z"
    by auto
  have xn: "x \<noteq> NaN" and mn: "m \<noteq> NaN" using 3(3) m(2) by auto
  show ?case
  proof (cases "f_le x m")
    case True
    then have "np_min (x # y # ys) = Inr x"
      using m(1) xn mn by (simp add: np_minimum_def is_nan_def)
    moreover have "\<forall>z\<in>set (y # ys). f_le x z"
      using True m(3) by (blast intro: f_le_trans)
    then have "\<forall>z\<in>set (x # y # ys). f_le x z"
      using f_le_refl[OF xn] by simp
    ultimately show ?thesis by simp
  next
    case False
    then have "np_min (x # y # ys) = Inr m"
      using m(1) xn mn by (simp add: np_minimum_def is_nan_def)
    moreover have "f_le m x" using False f_le_total[OF xn mn] by auto
    ultimately show ?thesis using m(2,3) by auto
  qed
qed

lemma np_min_empty_iff: "(\<exists>e. np_min xs = Inl e) \<longleftrightarrow> xs = []"
  by (induction xs rule: np_min.induct) (auto split: sum.splits)

lemma np_min_error: "np_min xs = Inl e \<Longrightarrow> e = ValueError_zero_size"
  by (induction xs rule: np_min.induct) (auto split: sum.splits)

lemma take_sel_error: "take_sel sel xs = Inl e \<Longrightarrow> e = IndexError_boolean_index"
  by (auto simp: take_sel_def split: selector.splits if_splits)

lemma take_cols_error: "take_cols sel M = Inl e \<Longrightarrow> e = IndexError_boolean_index"
  by (induction M) (auto split: sum.splits dest: take_sel_error)

lemma take_block_error: "take_block sm nm dc = Inl e \<Longrightarrow> e = IndexError_boolean_index"
  by (auto simp: take_block_def split: sum.splits dest: take_sel_error take_cols_error)

subsection \<open>The positivity check of \<^verbatim>\<open>normalize_poissonian_noise\<close>\<close>

lemma normalize_poissonian_noise_raises:
  assumes "take_block (include_selector sm) (include_selector nm) (data self) = Inr block"
    and "np_min (concat block) = Inr m" and "f_le m (Fin 0)"
  shows "normalize_poissonian_noise nm sm self = (Inl ValueError_negative_values, self)"
  using assms by (simp add: normalize_poissonian_noise_def)

lemma normalize_poissonian_noise_no_raise:
  assumes "take_block (include_selector sm) (include_selector nm) (data self) = Inr block"
    and "\<forall>x\<in>set (concat block). f_less (Fin 0) x"
  shows "fst (normalize_poissonian_noise nm sm self) \<noteq> Inl ValueError_negative_values"
proof (cases "concat block = []")
  case True
  have "np_min (concat block) = Inl ValueError_zero_size"
    unfolding True by simp
  then show ?thesis using assms(1) by (simp add: normalize_poissonian_noise_def)
next
  case False
  have "\<forall>x\<in>set (concat block). x \<noteq> NaN"
    using assms(2) by (blast dest: f_less_not_nan)
  from np_min_nan_free[OF False this] obtain m
    where m: "np_min (concat block) = Inr m" "m \<in> set (concat block)" by blast
  then have "\<not> f_le m (Fin 0)" using assms(2) by (blast dest: f_less_not_le)
  then show ?thesis
    using assms(1) m(1)
    by (auto simp: normalize_poissonian_noise_def Let_def split: sum.splits
        dest: take_block_error)
qed

text \<open>
  Claim C3. Let \<open>block\<close> be the included sub-block
  \<^verbatim>\<open>dc[:, signal_mask][navigation_mask, :]\<close>. If its minimum (\<^verbatim>\<open>.min()\<close>) is at most
  zero, \<^verbatim>\<open>normalize_poissonian_noise\<close> raises the ValueError of the Poisson check and
  leaves the signal, its data included, as it was; for a block of numbers (no NaN) this
  is the case as soon as one value is not strictly positive. If every value of the block
  is strictly positive, that error is not raised. (\<^verbatim>\<open>.min()\<close> of a block holding a NaN
  is NaN, and the comparison \<^verbatim>\<open>NaN <= 0.0\<close> is false.)
\<close>

theorem normalize_poissonian_noise_positivity_check:
  assumes "take_block (include_selector sm) (include_selector nm) (data self) = Inr block"
  shows "(\<forall>m. np_min (concat block) = Inr m \<and> f_le m (Fin 0) \<longrightarrow>
            normalize_poissonian_noise nm sm self = (Inl ValueError_negative_values, self))
       \<and> ((\<forall>x\<in>set (concat block). x \<noteq> NaN) \<and> (\<exists>x\<in>set (concat block). f_le x (Fin 0)) \<longrightarrow>
            normalize_poissonian_noise nm sm self = (Inl ValueError_negative_values, self))
       \<and> ((\<forall>x\<in>set (concat block). f_less (Fin 0) x) \<longrightarrow>
            fst (normalize_poissonian_noise nm sm self) \<noteq> Inl ValueError_negative_values)"
proof (intro conjI allI impI)
  fix m assume "np_min (concat block) = Inr m \<and> f_le m (Fin 0)"
  then show "normalize_poissonian_noise nm sm self = (Inl ValueError_negative_values, self)"
    using normalize_poissonian_noise_raises[OF assms] by blast
next
  assume h: "(\<forall>x\<in>set (concat block). x \<noteq> NaN) \<and> (\<exists>x\<in>set (concat block). f_le x (Fin 0))"
  then have ne: "concat block \<noteq> []" by (metis empty_iff list.set(1))
  from np_min_nan_free[OF ne] h obtain m
    where m: "np_min (concat block) = Inr m" "\<forall>x\<in>set (concat block). f_le m x" by blast
  from h obtain x where "x \<in> set (concat block)" "f_le x (Fin 0)" by blast
  then have "f_le m (Fin 0)" using m(2) by (blast intro: f_le_trans)
  then show "normalize_poissonian_noise nm sm self = (Inl ValueError_negative_values, self)"
    using normalize_poissonian_noise_raises[OF assms m(1)] by blast
next
  assume "\<forall>x\<in>set (concat block). f_less (Fin 0) x"
  then show "fst (normalize_poissonian_noise nm sm self) \<noteq> Inl ValueError_negative_values"
    using normalize_poissonian_noise_no_raise[OF assms] by blast
qed

theorem normalize_poissonian_noise_positivity_check_witness:
  "normalize_poissonian_noise None None (signal_of [[Fin 2, Fin (-1)], [Fin 3, Fin 4]])
     = (Inl ValueError_negative_values, signal_of [[Fin 2, Fin (-1)], [Fin 3, Fin 4]])
   \<and> fst (normalize_poissonian_noise None None (signal_of [[Fin 2, Fin 1], [Fin 3, Fin 4]]))
     \<noteq> Inl ValueError_negative_values"
proof -
  let ?neg = "[[Fin 2, Fin (-1)], [Fin 3, Fin 4]]"
  let ?pos = "[[Fin 2, Fin 1], [Fin 3, Fin 4]]"
  have b1: "take_block (include_selector None) (include_selector None) (data (signal_of ?neg))
      = Inr ?neg"
    by (simp add: include_selector_def take_block_def take_sel_def signal_of_def)
  have m1: "(\<forall>x\<in>set (concat ?neg). x \<noteq> NaN) \<and> (\<exists>x\<in>set (concat ?neg). f_le x (Fin 0))"
    by simp
  have b2: "take_block (include_selector None) (include_selector None) (data (signal_of ?pos))
      = Inr ?pos"
    by (simp add: include_selector_def take_block_def take_sel_def signal_of_def)
  have m2: "\<forall>x\<in>set (concat ?pos). f_less (Fin 0) x"
    by simp
  from normalize_poissonian_noise_positivity_check[OF b1] m1
  have "normalize_poissonian_noise None None (signal_of ?neg)
      = (Inl ValueError_negative_values, signal_of ?neg)"
    by blast
  moreover from normalize_poissonian_noise_positivity_check[OF b2] m2
  have "fst (normalize_poissonian_noise None None (signal_of ?pos))
      \<noteq> Inl ValueError_negative_values"
    by blast
  ultimately show ?thesis by blast
qed

subsection \<open>The steps of \<^verbatim>\<open>decomposition\<close>: which attributes they touch\<close>

lemma and_then_cases:
  assumes "and_then m f = (r, s')"
  obtains (raised) e where "m = (Inl e, s')" "r = Inl e"
        | (went_on) x s1 where "m = (Inr x, s1)" "f x s1 = (r, s')"
  using assms by (auto simp: and_then_def split: prod.splits sum.splits)

lemma normalize_poissonian_noise_frame:
  assumes "normalize_poissonian_noise nmask smask self = (r, self')"
  shows "data_before_treatments self' = data_before_treatments self
       \<and> learning_results self' = learning_results self
       \<and> unfolded4decomposition self' = unfolded4decomposition self
       \<and> navigation_shape_in_array self' = navigation_shape_in_array self
       \<and> signal_shape_in_array self' = signal_shape_in_array self
       \<and> folding_original_shape self' = folding_original_shape self"
  using assms
  by (auto simp: normalize_poissonian_noise_def Let_def split: sum.splits if_splits)

lemma pre_treatment_frame:
  assumes "pre_treatment a c nmask smask self = (r, self')"
  shows "data_before_treatments self' = data_before_treatments self
       \<and> learning_results self' = learning_results self
       \<and> unfolded4decomposition self' = unfolded4decomposition self
       \<and> navigation_shape_in_array self' = navigation_shape_in_array self
       \<and> signal_shape_in_array self' = signal_shape_in_array self
       \<and> folding_original_shape self' = folding_original_shape self"
  using assms normalize_poissonian_noise_frame[of nmask smask self r self']
  by (auto simp: pre_treatment_def split: if_splits)

lemma guarded_block_signal:
  assumes "guarded_block B a c self target = (r, self', target')"
  shows "\<exists>r1. pre_treatment a c (map_option ravel (kw_navigation_mask a))
     (map_option ravel (kw_signal_mask a)) self = (r1, self')"
  using assms by (auto simp: guarded_block_def Let_def split: sum.splits prod.splits)

lemma guarded_block_frame:
  assumes "guarded_block B a c self target = (r, self', target')"
  shows "data_before_treatments self' = data_before_treatments self
       \<and> learning_results self' = learning_results self
       \<and> unfolded4decomposition self' = unfolded4decomposition self
       \<and> navigation_shape_in_array self' = navigation_shape_in_array self
       \<and> signal_shape_in_array self' = signal_shape_in_array self
       \<and> folding_original_shape self' = folding_original_shape self"
  using guarded_block_signal[OF assms] pre_treatment_frame by blast

lemma rest_kept_refl: "rest_kept t t"
  by (simp add: rest_kept_def)

lemma rest_kept_trans: "rest_kept t t1 \<Longrightarrow> rest_kept t1 t2 \<Longrightarrow> rest_kept t t2"
  by (simp add: rest_kept_def)

lemma masks_kept_refl: "masks_kept t t"
  by (simp add: masks_kept_def)

lemma masks_kept_trans: "masks_kept t t1 \<Longrightarrow> masks_kept t1 t2 \<Longrightarrow> masks_kept t t2"
  by (simp add: masks_kept_def)

lemma reproject_navigation_kept:
  "reproject_navigation B a c dc sm ft t = (r, t') \<Longrightarrow> rest_kept t t' \<and> masks_kept t t'"
  by (auto simp: reproject_navigation_def rest_kept_def masks_kept_def
      split: if_splits sum.splits option.splits)

lemma reproject_signal_kept:
  "reproject_signal B a c dc nm ft t = (r, t') \<Longrightarrow> rest_kept t t' \<and> masks_kept t t'"
  by (auto simp: reproject_signal_def rest_kept_def masks_kept_def
      split: if_splits sum.splits option.splits)

lemma rescale_results_kept:
  "rescale_results c self t = (r, t') \<Longrightarrow> rest_kept t t' \<and> masks_kept t t'"
  by (auto simp: rescale_results_def rest_kept_def masks_kept_def Let_def
      split: if_splits sum.splits option.splits)

lemma store_signal_mask_kept:
  "store_signal_mask self dc sm rp t = (r, t') \<Longrightarrow>
     rest_kept t t' \<and> navigation_mask t' = navigation_mask t"
  by (auto simp: store_signal_mask_def rest_kept_def Let_def
      split: if_splits sum.splits option.splits selector.splits)

lemma store_navigation_mask_kept:
  "store_navigation_mask self dc nm rp t = (r, t') \<Longrightarrow>
     rest_kept t t' \<and> signal_mask t' = signal_mask t"
  by (auto simp: store_navigation_mask_def rest_kept_def Let_def
      split: if_splits sum.splits option.splits selector.splits)

lemma store_signal_mask_stores:
  "store_signal_mask self dc sm rp t = (Inr u, t') \<Longrightarrow>
     signal_mask t' = (case sm of SliceAll \<Rightarrow> signal_mask t
                       | BoolIndex m \<Rightarrow> stored_mask (signal_shape_in_array self) sm)"
  by (auto simp: store_signal_mask_def Let_def stored_mask_def np_reshape_def np_invert_def
      split: if_splits sum.splits option.splits selector.splits)

lemma store_navigation_mask_stores:
  "store_navigation_mask self dc nm rp t = (Inr u, t') \<Longrightarrow>
     navigation_mask t' = (case nm of SliceAll \<Rightarrow> navigation_mask t
                       | BoolIndex m \<Rightarrow> stored_mask (navigation_shape_in_array self) nm)"
  by (auto simp: store_navigation_mask_def Let_def stored_mask_def np_reshape_def np_invert_def
      split: if_splits sum.splits option.splits selector.splits)


lemma rest_kept_bss: "rest_kept t t' \<Longrightarrow> bss_block_kept t t'"
  by (simp add: rest_kept_def bss_block_kept_def)

lemma bss_block_kept_refl: "bss_block_kept t t"
  by (simp add: bss_block_kept_def)

lemma bss_block_kept_trans: "bss_block_kept t t1 \<Longrightarrow> bss_block_kept t1 t2 \<Longrightarrow> bss_block_kept t t2"
  by (simp add: bss_block_kept_def)

lemma crop_frame:
  "crop_decomposition_dimension n lr = (r, lr') \<Longrightarrow>
     bss_factors lr' = bss_factors lr \<and> bss_loadings lr' = bss_loadings lr
     \<and> unmixing_matrix lr' = unmixing_matrix lr \<and> bss_algorithm lr' = bss_algorithm lr
     \<and> navigation_mask lr' = navigation_mask lr \<and> signal_mask lr' = signal_mask lr"
  by (auto simp: crop_decomposition_dimension_def Let_def split: option.splits)

lemma crop_explained_variance:
  "crop_decomposition_dimension n lr = (Inr u, lr') \<Longrightarrow>
     explained_variance lr' = map_option (py_slice_to n) (explained_variance lr)"
  by (auto simp: crop_decomposition_dimension_def Let_def split: option.splits)

lemma store_results_kept:
  "store_results a c self ft ratio nsc t = (r, t') \<Longrightarrow> bss_block_kept t t' \<and> masks_kept t t'"
  by (auto simp: store_results_def Let_def and_then_def bss_block_kept_def masks_kept_def
      split: option.splits if_splits sum.splits prod.splits dest!: crop_frame)

lemma cropped_fun:
  "cropped od k = (\<lambda>v. case od of None \<Rightarrow> v
                     | Some n \<Rightarrow> if n \<noteq> 0 \<and> int k \<noteq> n then py_slice_to n v else v)"
  by (rule ext) (simp add: cropped_def)

lemma map_option_ident: "map_option (\<lambda>v. v) x = x"
  by (cases x) auto

lemma store_results_explained_variance:
  "store_results a c self ft ratio nsc t = (Inr u, t') \<Longrightarrow>
     explained_variance t' =
       map_option (cropped (kw_output_dimension a) (ncols (fit_factors ft)))
         (fit_explained_variance ft)"
  by (auto simp: store_results_def Let_def and_then_def cropped_fun map_option_ident
      split: option.splits if_splits sum.splits prod.splits dest!: crop_explained_variance)



lemma after_fit_cases:
  assumes "after_fit B a c self nm sm ft ratio nsc t = (r, t')"
  obtains
    (store) e where "store_results a c self ft ratio nsc t = (Inl e, t')" "r = Inl e"
  | (navigation) u1 t1 e where "store_results a c self ft ratio nsc t = (Inr u1, t1)"
      "reproject_navigation B a c (data self) sm ft t1 = (Inl e, t')" "r = Inl e"
  | (signal) u1 t1 u2 t2 e where "store_results a c self ft ratio nsc t = (Inr u1, t1)"
      "reproject_navigation B a c (data self) sm ft t1 = (Inr u2, t2)"
      "reproject_signal B a c (data self) nm ft t2 = (Inl e, t')" "r = Inl e"
  | (rescale) u1 t1 u2 t2 rp t3 e where "store_results a c self ft ratio nsc t = (Inr u1, t1)"
      "reproject_navigation B a c (data self) sm ft t1 = (Inr u2, t2)"
      "reproject_signal B a c (data self) nm ft t2 = (Inr rp, t3)"
      "rescale_results c self t3 = (Inl e, t')" "r = Inl e"
  | (signal_mask) u1 t1 u2 t2 rp t3 u4 t4 e where
      "store_results a c self ft ratio nsc t = (Inr u1, t1)"
      "reproject_navigation B a c (data self) sm ft t1 = (Inr u2, t2)"
      "reproject_signal B a c (data self) nm ft t2 = (Inr rp, t3)"
      "rescale_results c self t3 = (Inr u4, t4)"
      "store_signal_mask self (data self) sm rp t4 = (Inl e, t')" "r = Inl e"
  | (navigation_mask) u1 t1 u2 t2 rp t3 u4 t4 u5 t5 where
      "store_results a c self ft ratio nsc t = (Inr u1, t1)"
      "reproject_navigation B a c (data self) sm ft t1 = (Inr u2, t2)"
      "reproject_signal B a c (data self) nm ft t2 = (Inr rp, t3)"
      "rescale_results c self t3 = (Inr u4, t4)"
      "store_signal_mask self (data self) sm rp t4 = (Inr u5, t5)"
      "store_navigation_mask self (data self) nm rp t5 = (r, t')"
proof -
  obtain r1 t1 where 1: "store_results a c self ft ratio nsc t = (r1, t1)" by fastforce
  show thesis
  proof (cases r1)
    case (Inl e)
    then show thesis using assms 1 store by (auto simp: after_fit_def and_then_def)
  next
    case (Inr u1)
    obtain r2 t2 where 2: "reproject_navigation B a c (data self) sm ft t1 = (r2, t2)"
      by fastforce
    show thesis
    proof (cases r2)
      case (Inl e)
      then show thesis using assms 1 2 Inr navigation by (auto simp: after_fit_def and_then_def)
    next
      case u2: (Inr u2)
      obtain r3 t3 where 3: "reproject_signal B a c (data self) nm ft t2 = (r3, t3)"
        by fastforce
      show thesis
      proof (cases r3)
        case (Inl e)
        then show thesis using assms 1 2 3 Inr u2 signal
          by (auto simp: after_fit_def and_then_def)
      next
        case rp: (Inr rp)
        obtain r4 t4 where 4: "rescale_results c self t3 = (r4, t4)" by fastforce
        show thesis
        proof (cases r4)
          case (Inl e)
          then show thesis using assms 1 2 3 4 Inr u2 rp rescale
            by (auto simp: after_fit_def and_then_def)
        next
          case u4: (Inr u4)
          obtain r5 t5 where 5: "store_signal_mask self (data self) sm rp t4 = (r5, t5)"
            by fastforce
          show thesis
          proof (cases r5)
            case (Inl e)
            then show thesis using assms 1 2 3 4 5 Inr u2 rp u4 signal_mask
              by (auto simp: after_fit_def and_then_def)
          next
            case u5: (Inr u5)
            then show thesis using assms 1 2 3 4 5 Inr u2 rp u4 navigation_mask
              by (auto simp: after_fit_def and_then_def)
          qed
        qed
      qed
    qed
  qed
qed


lemma store_results_bss:
  "store_results a c self ft ratio nsc t = (r, t') \<Longrightarrow> bss_block_kept t t'"
  using store_results_kept by blast

lemma reproject_navigation_bss:
  "reproject_navigation B a c dc sm ft t = (r, t') \<Longrightarrow> bss_block_kept t t'"
  using reproject_navigation_kept rest_kept_bss by blast

lemma reproject_signal_bss:
  "reproject_signal B a c dc nm ft t = (r, t') \<Longrightarrow> bss_block_kept t t'"
  using reproject_signal_kept rest_kept_bss by blast

lemma rescale_results_bss:
  "rescale_results c self t = (r, t') \<Longrightarrow> bss_block_kept t t'"
  using rescale_results_kept rest_kept_bss by blast

lemma store_signal_mask_bss:
  "store_signal_mask self dc sm rp t = (r, t') \<Longrightarrow> bss_block_kept t t'"
  using store_signal_mask_kept rest_kept_bss by blast

lemma store_navigation_mask_bss:
  "store_navigation_mask self dc nm rp t = (r, t') \<Longrightarrow> bss_block_kept t t'"
  using store_navigation_mask_kept rest_kept_bss by blast

lemma after_fit_kept:
  assumes "after_fit B a c self nm sm ft ratio nsc t = (r, t')"
  shows "bss_block_kept t t'"
  using assms
proof (cases rule: after_fit_cases)
  case (store e)
  then show ?thesis using store_results_bss by blast
next
  case (navigation u1 t1 e)
  note k = store_results_bss[OF navigation(1)] reproject_navigation_bss[OF navigation(2)]
  show ?thesis using k by (simp add: bss_block_kept_def)
next
  case (signal u1 t1 u2 t2 e)
  note k = store_results_bss[OF signal(1)] reproject_navigation_bss[OF signal(2)]
    reproject_signal_bss[OF signal(3)]
  show ?thesis using k by (simp add: bss_block_kept_def)
next
  case (rescale u1 t1 u2 t2 rp t3 e)
  note k = store_results_bss[OF rescale(1)] reproject_navigation_bss[OF rescale(2)]
    reproject_signal_bss[OF rescale(3)] rescale_results_bss[OF rescale(4)]
  show ?thesis using k by (simp add: bss_block_kept_def)
next
  case (signal_mask u1 t1 u2 t2 rp t3 u4 t4 e)
  note k = store_results_bss[OF signal_mask(1)] reproject_navigation_bss[OF signal_mask(2)]
    reproject_signal_bss[OF signal_mask(3)] rescale_results_bss[OF signal_mask(4)]
    store_signal_mask_bss[OF signal_mask(5)]
  show ?thesis using k by (simp add: bss_block_kept_def)
next
  case (navigation_mask u1 t1 u2 t2 rp t3 u4 t4 u5 t5)
  note k = store_results_bss[OF navigation_mask(1)]
    reproject_navigation_bss[OF navigation_mask(2)]
    reproject_signal_bss[OF navigation_mask(3)] rescale_results_bss[OF navigation_mask(4)]
    store_signal_mask_bss[OF navigation_mask(5)]
    store_navigation_mask_bss[OF navigation_mask(6)]
  show ?thesis using k by (simp add: bss_block_kept_def)
qed

lemma after_fit_success:
  assumes "after_fit B a c self nm sm ft ratio nsc t = (Inr u, t')"
  shows "explained_variance t' =
           map_option (cropped (kw_output_dimension a) (ncols (fit_factors ft)))
             (fit_explained_variance ft)
       \<and> signal_mask t' = (case sm of SliceAll \<Rightarrow> signal_mask t
                           | BoolIndex m \<Rightarrow> stored_mask (signal_shape_in_array self) sm)
       \<and> navigation_mask t' = (case nm of SliceAll \<Rightarrow> navigation_mask t
                           | BoolIndex m \<Rightarrow> stored_mask (navigation_shape_in_array self) nm)"
  using assms
proof (cases rule: after_fit_cases)
  case (navigation_mask u1 s1 u2 s2 rp s3 u4 s4 u5 s5)
  have ev: "explained_variance s1 =
           map_option (cropped (kw_output_dimension a) (ncols (fit_factors ft)))
             (fit_explained_variance ft)"
    using navigation_mask(1) by (rule store_results_explained_variance)
  have m1: "masks_kept t s1" using navigation_mask(1) store_results_kept by blast
  have k2: "rest_kept s1 s2 \<and> masks_kept s1 s2"
    using navigation_mask(2) by (rule reproject_navigation_kept)
  have k3: "rest_kept s2 s3 \<and> masks_kept s2 s3"
    using navigation_mask(3) by (rule reproject_signal_kept)
  have k4: "rest_kept s3 s4 \<and> masks_kept s3 s4"
    using navigation_mask(4) by (rule rescale_results_kept)
  have k5: "rest_kept s4 s5 \<and> navigation_mask s5 = navigation_mask s4"
    using navigation_mask(5) by (rule store_signal_mask_kept)
  have k6: "rest_kept s5 t' \<and> signal_mask t' = signal_mask s5"
    using navigation_mask(6) by (rule store_navigation_mask_kept)
  have s5: "signal_mask s5 = (case sm of SliceAll \<Rightarrow> signal_mask s4
                       | BoolIndex m \<Rightarrow> stored_mask (signal_shape_in_array self) sm)"
    using navigation_mask(5) by (rule store_signal_mask_stores)
  have s6: "navigation_mask t' = (case nm of SliceAll \<Rightarrow> navigation_mask s5
                       | BoolIndex m \<Rightarrow> stored_mask (navigation_shape_in_array self) nm)"
    using navigation_mask(6) by (rule store_navigation_mask_stores)
  show ?thesis
    using ev m1 k2 k3 k4 k5 k6 s5 s6
    by (simp add: rest_kept_def masks_kept_def split: selector.splits)
qed simp_all

lemma guarded_block_kept:
  assumes "guarded_block B a c self t = (r, self', t')"
  shows "bss_block_kept t t'"
  using assms
  by (auto simp: guarded_block_def Let_def bss_block_kept_refl
      split: sum.splits prod.splits dest: after_fit_kept)

lemma undo_treatments_learning_results:
  "undo_treatments self = (r, self') \<Longrightarrow> learning_results self' = learning_results self"
  by (auto simp: undo_treatments_def split: option.splits)

lemma finally_clause_learning_results:
  "finally_clause a target self = (r, self') \<Longrightarrow>
     learning_results self' = dict_update (learning_results self) target"
  by (auto simp: finally_clause_def Let_def split: if_splits dest!: undo_treatments_learning_results)

lemma decomposition_cases:
  assumes "decomposition B a self = (r, self')"
  obtains (rejected) e where "checks B a self = Inl e" "r = Inl e" "self' = self"
  | (ran) c outcome self3 target1 u where "checks B a self = Inr c"
      "guarded_block B a c (before_block a self) LearningResults_init = (outcome, self3, target1)"
      "finally_clause a target1 self3 = (u, self')"
      "r = (case u of Inl e \<Rightarrow> Inl e | Inr x \<Rightarrow> outcome)"
  using assms
  by (auto simp: decomposition_def split: sum.splits prod.splits)

subsection \<open>The BSS block after a decomposition\<close>

text \<open>
  Claim C4. After every call of \<^verbatim>\<open>decomposition\<close> that returns, whatever the
  algorithm, the collaborators and the results stored before the call, the attributes
  \<^verbatim>\<open>unmixing_matrix\<close>, \<^verbatim>\<open>bss_factors\<close>, \<^verbatim>\<open>bss_loadings\<close> and \<^verbatim>\<open>bss_algorithm\<close> of
  \<^verbatim>\<open>learning_results\<close> are \<^verbatim>\<open>None\<close>.
\<close>

theorem decomposition_clears_bss_block:
  assumes "decomposition B a self = (Inr ret, self')"
  shows "unmixing_matrix (learning_results self') = None
       \<and> bss_factors (learning_results self') = None
       \<and> bss_loadings (learning_results self') = None
       \<and> bss_algorithm (learning_results self') = None"
  using assms
proof (cases rule: decomposition_cases)
  case (rejected e)
  then show ?thesis by simp
next
  case (ran c outcome self3 target1 u)
  have "bss_block_kept LearningResults_init target1"
    using guarded_block_kept[OF ran(2)] .
  then have "unmixing_matrix target1 = None \<and> bss_factors target1 = None
     \<and> bss_loadings target1 = None \<and> bss_algorithm target1 = None"
    by (simp add: bss_block_kept_def LearningResults_init_def)
  then show ?thesis
    using finally_clause_learning_results[OF ran(3)] by (simp add: dict_update_def)
qed

theorem decomposition_clears_bss_block_witness:
  "fst (decomposition example_backends default_args
          ((signal_of [[Fin 1, Fin 2], [Fin 3, Fin 4]])\<lparr> learning_results := earlier_results \<rparr>))
     = Inr ReturnNone
   \<and> unmixing_matrix earlier_results = Some [[Fin 1]]
   \<and> unmixing_matrix (learning_results (snd (decomposition example_backends default_args
          ((signal_of [[Fin 1, Fin 2], [Fin 3, Fin 4]])\<lparr> learning_results := earlier_results \<rparr>))))
     = None
   \<and> bss_factors (learning_results (snd (decomposition example_backends default_args
          ((signal_of [[Fin 1, Fin 2], [Fin 3, Fin 4]])\<lparr> learning_results := earlier_results \<rparr>))))
     = None
   \<and> bss_loadings (learning_results (snd (decomposition example_backends default_args
          ((signal_of [[Fin 1, Fin 2], [Fin 3, Fin 4]])\<lparr> learning_results := earlier_results \<rparr>))))
     = None
   \<and> bss_algorithm (learning_results (snd (decomposition example_backends default_args
          ((signal_of [[Fin 1, Fin 2], [Fin 3, Fin 4]])\<lparr> learning_results := earlier_results \<rparr>))))
     = None"
proof -
  let ?s = "(signal_of [[Fin 1, Fin 2], [Fin 3, Fin 4]])\<lparr> learning_results := earlier_results \<rparr>"
  have r: "fst (decomposition example_backends default_args ?s) = Inr ReturnNone"
    by (simp add: evaluation)
  then have h: "decomposition example_backends default_args ?s
      = (Inr ReturnNone, snd (decomposition example_backends default_args ?s))"
    by (metis prod.collapse)
  have e: "unmixing_matrix earlier_results = Some [[Fin 1]]"
    by (simp add: earlier_results_def)
  show ?thesis
    using r e decomposition_clears_bss_block[OF h] by simp
qed

subsection \<open>The outcome of \<^verbatim>\<open>decomposition\<close> and of its guarded block\<close>

lemma guarded_block_success:
  assumes "guarded_block B a c self t = (Inr ret, self', t')"
  obtains data0 ft ratio nsc u where
    "take_block (include_selector (map_option ravel (kw_signal_mask a)))
       (include_selector (map_option ravel (kw_navigation_mask a))) (data self') = Inr data0"
    "fit_model B a c data0 = Inr ft"
    "variance_summary self' (fit_explained_variance ft) = Inr (ratio, nsc)"
    "after_fit B a c self' (include_selector (map_option ravel (kw_navigation_mask a)))
       (include_selector (map_option ravel (kw_signal_mask a))) ft ratio nsc t = (Inr u, t')"
    "ret = fit_to_return ft"
  using assms
  by (auto simp: guarded_block_def Let_def split: sum.splits prod.splits)

lemma before_block_frame:
  "data (before_block a self) = data self
   \<and> learning_results (before_block a self) = learning_results self
   \<and> navigation_shape_in_array (before_block a self) = navigation_shape_in_array self
   \<and> signal_shape_in_array (before_block a self) = signal_shape_in_array self
   \<and> data_before_treatments (before_block a self)
       = (if kw_copy a then Some (data self) else data_before_treatments self)"
  by (simp add: before_block_def Let_def)

lemma stored_mask_include:
  "stored_mask shape (include_selector (map_option ravel mo)) =
     (case mo of None \<Rightarrow> None | Some m \<Rightarrow> Some (shape, ravel m))"
  by (cases mo) (simp_all add: stored_mask_def include_selector_def comp_def)

lemma stored_mask_case:
  "(case sel of SliceAll \<Rightarrow> None | BoolIndex m \<Rightarrow> stored_mask shape sel) = stored_mask shape sel"
  by (cases sel) (simp_all add: stored_mask_def)

lemma guarded_block_data_before:
  assumes "guarded_block B a c self target = (r, self', target')"
  shows "data_before_treatments self' = data_before_treatments self"
  using guarded_block_frame[OF assms] by simp

lemma finally_clause_result:
  assumes "kw_copy a \<longrightarrow> data_before_treatments s = Some d"
  shows "fst (finally_clause a t s) = Inr ()
       \<and> learning_results (snd (finally_clause a t s)) = dict_update (learning_results s) t
       \<and> (kw_copy a \<longrightarrow> data (snd (finally_clause a t s)) = d
            \<and> data_before_treatments (snd (finally_clause a t s)) = None)"
  using assms
  by (cases "unfolded4decomposition s"; cases "kw_copy a")
     (simp_all add: finally_clause_def undo_treatments_def Let_def)

lemma decomposition_outcome:
  assumes "checks B a self = Inr c"
    and "guarded_block B a c (before_block a self) LearningResults_init = (outcome, self3, target1)"
  shows "fst (decomposition B a self) = outcome"
    and "learning_results (snd (decomposition B a self))
           = dict_update (learning_results self) target1"
    and "kw_copy a \<Longrightarrow> data (snd (decomposition B a self)) = data self"
    and "kw_copy a \<Longrightarrow> data_before_treatments (snd (decomposition B a self)) = None"
proof -
  have lr: "learning_results self3 = learning_results self"
    using guarded_block_frame[OF assms(2)] before_block_frame[of a self] by simp
  have db: "data_before_treatments self3
       = (if kw_copy a then Some (data self) else data_before_treatments self)"
    using guarded_block_frame[OF assms(2)] before_block_frame[of a self] by simp
  have "kw_copy a \<longrightarrow> data_before_treatments self3 = Some (data self)"
    using db by simp
  from finally_clause_result[OF this, of target1]
  obtain self4 where f: "finally_clause a target1 self3 = (Inr (), self4)"
    and f4: "learning_results self4 = dict_update (learning_results self) target1"
            "kw_copy a \<longrightarrow> data self4 = data self \<and> data_before_treatments self4 = None"
    using lr by (cases "finally_clause a target1 self3") auto
  have d: "decomposition B a self = (outcome, self4)"
    using assms f by (simp add: decomposition_def)
  show "fst (decomposition B a self) = outcome"
    and "learning_results (snd (decomposition B a self))
           = dict_update (learning_results self) target1"
    and "kw_copy a \<Longrightarrow> data (snd (decomposition B a self)) = data self"
    and "kw_copy a \<Longrightarrow> data_before_treatments (snd (decomposition B a self)) = None"
    using d f4 by simp_all
qed

lemma alg_is_name: "alg_is algorithm name \<longleftrightarrow> algorithm = AlgName name"
  by (cases algorithm) (auto simp: alg_is_def alg_in_def)

lemma checks_locals:
  assumes "checks B a self = Inr c"
  shows "c_algorithm c = renamed_algorithm a"
    and "c_estim c = sklearn_estimator B (renamed_algorithm a) (kw_output_dimension a)"
    and "c_normalize_poissonian_noise c =
           (if alg_is (renamed_algorithm a) ''mlpca'' \<and> kw_normalize_poissonian_noise a
            then False else kw_normalize_poissonian_noise a)"
    and "c_var_func c = (case kw_polyfit a of Some p \<Rightarrow> Some p | None \<Rightarrow> kw_var_func a)"
    and "dtype_is_float self" and "2 \<le> navigation_size self"
  using assms
  by (auto simp: checks_def renamed_algorithm_def split: prod.splits if_splits)

lemma from_usv_result:
  assumes "from_usv U S V ce tr = Inr ft"
  shows "fit_factors ft = V"
    and "fit_explained_variance ft
           = Some (map (\<lambda>s. f_div (f_mul s s) (Fin (real (length V)))) S)"
  using assms by (auto simp: from_usv_def split: sum.splits)

lemma fit_model_usv:
  assumes "fit_model B a c data0 = Inr ft"
    and "alg_is (c_algorithm c) ''mlpca'' \<or> alg_is (c_algorithm c) ''rpca''"
  shows "\<exists>od U S V. kw_output_dimension a = Some od
     \<and> ((alg_is (c_algorithm c) ''mlpca''
            \<and> (\<exists>va. mlpca B data0 va od (c_svd_solver c) = Inr (U, S, V)))
        \<or> (alg_is (c_algorithm c) ''rpca''
            \<and> (\<exists>X E. rpca_godec B data0 od = Inr (X, E, U, S, V))))
     \<and> fit_factors ft = V
     \<and> fit_explained_variance ft
           = Some (map (\<lambda>s. f_div (f_mul s s) (Fin (real (length V)))) S)"
  using assms(2)
proof
  assume m: "alg_is (c_algorithm c) ''mlpca''"
  then have alg: "c_algorithm c = AlgName ''mlpca''" by (simp add: alg_is_name)
  from assms(1) obtain va od U S V where
    "kw_output_dimension a = Some od" "mlpca B data0 va od (c_svd_solver c) = Inr (U, S, V)"
    "from_usv U S V (kw_centre a) ReturnNone = Inr ft"
    by (auto simp: fit_model_def alg alg_is_name split: sum.splits option.splits)
  then show ?thesis using m from_usv_result by blast
next
  assume r: "alg_is (c_algorithm c) ''rpca''"
  then have alg: "c_algorithm c = AlgName ''rpca''" by (simp add: alg_is_name)
  from assms(1) obtain od X E U S V where
    "kw_output_dimension a = Some od" "rpca_godec B data0 od = Inr (X, E, U, S, V)"
    "from_usv U S V (kw_centre a) (if kw_return_info a then ReturnXE X E else ReturnNone) = Inr ft"
    by (auto simp: fit_model_def alg alg_is_name split: sum.splits option.splits)
  then show ?thesis using r from_usv_result by blast
qed

subsection \<open>The masks stored by a decomposition\<close>

text \<open>
  Claim C9. After every call of \<^verbatim>\<open>decomposition\<close> that returns, the mask stored in
  \<^verbatim>\<open>learning_results\<close> for an axis is \<^verbatim>\<open>None\<close> when the argument was \<^verbatim>\<open>None\<close>, and
  otherwise the caller's exclusion mask (True for excluded) in the shape of the axis of
  the dataset; it is the element-wise negation of the inclusion selector used inside.
\<close>

theorem decomposition_stores_exclusion_masks:
  assumes "decomposition B a self = (Inr ret, self')"
  shows "navigation_mask (learning_results self') =
           (case kw_navigation_mask a of None \<Rightarrow> None
            | Some m \<Rightarrow> Some (navigation_shape_in_array self, ravel m))
       \<and> navigation_mask (learning_results self') =
           stored_mask (navigation_shape_in_array self)
             (include_selector (map_option ravel (kw_navigation_mask a)))
       \<and> signal_mask (learning_results self') =
           (case kw_signal_mask a of None \<Rightarrow> None
            | Some m \<Rightarrow> Some (signal_shape_in_array self, ravel m))
       \<and> signal_mask (learning_results self') =
           stored_mask (signal_shape_in_array self)
             (include_selector (map_option ravel (kw_signal_mask a)))"
  using assms
proof (cases rule: decomposition_cases)
  case (rejected e)
  then show ?thesis by simp
next
  case (ran c outcome self3 target1 u)
  from ran(4) have out: "outcome = Inr ret" by (cases u) simp_all
  from ran(2)[unfolded out] obtain data0 ft ratio nsc u1 where
    af: "after_fit B a c self3 (include_selector (map_option ravel (kw_navigation_mask a)))
       (include_selector (map_option ravel (kw_signal_mask a))) ft ratio nsc
       LearningResults_init = (Inr u1, target1)"
    by (rule guarded_block_success)
  have shapes: "navigation_shape_in_array self3 = navigation_shape_in_array self"
      "signal_shape_in_array self3 = signal_shape_in_array self"
    using guarded_block_frame[OF ran(2)] before_block_frame[of a self] by simp_all
  have "signal_mask target1 = stored_mask (signal_shape_in_array self)
             (include_selector (map_option ravel (kw_signal_mask a)))"
    and "navigation_mask target1 = stored_mask (navigation_shape_in_array self)
             (include_selector (map_option ravel (kw_navigation_mask a)))"
    using after_fit_success[OF af] shapes
    by (auto simp: LearningResults_init_def stored_mask_def split: selector.splits)
  then show ?thesis
    using finally_clause_learning_results[OF ran(3)]
    by (simp add: dict_update_def stored_mask_include)
qed

theorem decomposition_stores_exclusion_masks_witness:
  "fst (decomposition example_backends masked_args three_by_two) = Inr ReturnNone
   \<and> navigation_mask (learning_results (snd (decomposition example_backends masked_args
        three_by_two))) = Some ([3], [False, True, False])
   \<and> signal_mask (learning_results (snd (decomposition example_backends masked_args
        three_by_two))) = Some ([2], [True, False])"
proof -
  have r: "fst (decomposition example_backends masked_args three_by_two) = Inr ReturnNone"
    by (simp add: evaluation)
  then have h: "decomposition example_backends masked_args three_by_two
      = (Inr ReturnNone, snd (decomposition example_backends masked_args three_by_two))"
    by (metis prod.collapse)
  show ?thesis
    using r decomposition_stores_exclusion_masks[OF h]
    by (simp add: masked_args_def default_args_def three_by_two_def signal_of_def ravel_def
        ncols_def)
qed

subsection \<open>The state after a decomposition that raised\<close>

text \<open>
  Claim C1 says that after a call that raised inside the guarded block the stored
  results are the ones of before the call. They are not: the \<^verbatim>\<open>finally\<close> clause copies
  the attributes of the fresh \<^verbatim>\<open>target\<close> into \<^verbatim>\<open>learning_results\<close> on every path. Here
  \<^verbatim>\<open>svd_pca\<close> raises, and the factors and the BSS factors stored before are gone.
\<close>

theorem decomposition_failure_counterexample:
  "fst (decomposition failing_backends default_args analysed_signal)
     = Inl (BackendError ''svd_pca'')
   \<and> factors (learning_results analysed_signal) = Some [[Fin 1], [Fin 1]]
   \<and> factors (learning_results (snd (decomposition failing_backends default_args
        analysed_signal))) = None
   \<and> bss_factors (learning_results analysed_signal) = Some [[Fin 1], [Fin 1]]
   \<and> bss_factors (learning_results (snd (decomposition failing_backends default_args
        analysed_signal))) = None"
  by (simp add: evaluation)

text \<open>
  Claim C1, amended. When \<^verbatim>\<open>decomposition\<close> is called with \<^verbatim>\<open>copy=True\<close>, passes its
  checks and raises, the data of the signal is afterwards the data of before the call
  and the copy is deleted. The stored results are overwritten with the attributes of
  the \<^verbatim>\<open>target\<close> the guarded block was filling: the BSS block is \<^verbatim>\<open>None\<close>, and an
  attribute of the decomposition is \<^verbatim>\<open>None\<close> unless the block had assigned it before
  it raised; \<^verbatim>\<open>on_loadings\<close> is kept.
\<close>

theorem decomposition_failure_state:
  assumes "checks B a self = Inr c" and "kw_copy a"
    and "decomposition B a self = (Inl e, self')"
  shows "data self' = data self
       \<and> data_before_treatments self' = None
       \<and> learning_results self' =
           dict_update (learning_results self)
             (snd (snd (guarded_block B a c (before_block a self) LearningResults_init)))
       \<and> unmixing_matrix (learning_results self') = None
       \<and> bss_factors (learning_results self') = None
       \<and> bss_loadings (learning_results self') = None
       \<and> bss_algorithm (learning_results self') = None
       \<and> on_loadings (learning_results self') = on_loadings (learning_results self)"
proof -
  obtain outcome self3 target1 where
    g: "guarded_block B a c (before_block a self) LearningResults_init = (outcome, self3, target1)"
    by (metis prod.collapse)
  have s: "self' = snd (decomposition B a self)" using assms(3) by simp
  have "bss_block_kept LearningResults_init target1"
    using guarded_block_kept[OF g] .
  then have b: "unmixing_matrix target1 = None \<and> bss_factors target1 = None
     \<and> bss_loadings target1 = None \<and> bss_algorithm target1 = None"
    by (simp add: bss_block_kept_def LearningResults_init_def)
  show ?thesis
    using decomposition_outcome[OF assms(1) g] assms(2) b
    unfolding s g by (simp add: dict_update_def)
qed

theorem decomposition_failure_state_witness:
  "fst (decomposition failing_backends normalizing_args analysed_signal)
     = Inl (BackendError ''svd_pca'')
   \<and> data (snd (decomposition failing_backends normalizing_args analysed_signal))
     = [[Fin 2, Fin 2], [Fin 2, Fin 2]]
   \<and> bss_factors (learning_results (snd (decomposition failing_backends normalizing_args
        analysed_signal))) = None
   \<and> factors (learning_results (snd (decomposition failing_backends normalizing_args
        analysed_signal))) = None"
proof -
  have c: "checks failing_backends normalizing_args analysed_signal
      = Inr \<lparr> c_algorithm = AlgName ''svd'', c_svd_solver = ''auto'',
              c_is_sklearn_like = False, c_estim = None,
              c_normalize_poissonian_noise = True, c_var_func = None \<rparr>"
    by (simp add: evaluation)
  have k: "kw_copy normalizing_args"
    by (simp add: normalizing_args_def default_args_def)
  have r: "fst (decomposition failing_backends normalizing_args analysed_signal)
      = Inl (BackendError ''svd_pca'')"
    by (simp add: evaluation)
  then have h: "decomposition failing_backends normalizing_args analysed_signal
      = (Inl (BackendError ''svd_pca''),
         snd (decomposition failing_backends normalizing_args analysed_signal))"
    by (metis prod.collapse)
  have g: "factors (snd (snd (guarded_block failing_backends normalizing_args
               \<lparr> c_algorithm = AlgName ''svd'', c_svd_solver = ''auto'',
                 c_is_sklearn_like = False, c_estim = None,
                 c_normalize_poissonian_noise = True, c_var_func = None \<rparr>
               (before_block normalizing_args analysed_signal) LearningResults_init))) = None"
    by (simp add: evaluation)
  have d: "data analysed_signal = [[Fin 2, Fin 2], [Fin 2, Fin 2]]"
    by (simp add: analysed_signal_def signal_of_def)
  note t = decomposition_failure_state[OF c k h]
  from t have t1: "data (snd (decomposition failing_backends normalizing_args analysed_signal))
      = data analysed_signal"
    by blast
  from t have t2: "learning_results (snd (decomposition failing_backends normalizing_args
        analysed_signal))
      = dict_update (learning_results analysed_signal)
          (snd (snd (guarded_block failing_backends normalizing_args
               \<lparr> c_algorithm = AlgName ''svd'', c_svd_solver = ''auto'',
                 c_is_sklearn_like = False, c_estim = None,
                 c_normalize_poissonian_noise = True, c_var_func = None \<rparr>
               (before_block normalizing_args analysed_signal) LearningResults_init)))"
    by blast
  from t have t3: "bss_factors (learning_results (snd (decomposition failing_backends
        normalizing_args analysed_signal))) = None"
    by blast
  have t4: "factors (learning_results (snd (decomposition failing_backends normalizing_args
        analysed_signal))) = None"
    unfolding t2 using g by (simp add: dict_update_def)
  show ?thesis
    using r t1 d t3 t4 by simp
qed

subsection \<open>The explained variance of \<^verbatim>\<open>mlpca\<close> and \<^verbatim>\<open>rpca\<close>\<close>

text \<open>
  Claim C8 divides the squared singular values by the number of rows of the loadings.
  The source divides by \<^verbatim>\<open>len(factors)\<close>, the number of rows of \<open>V\<close>. Here
  \<^verbatim>\<open>rpca_godec\<close> returns the singular values 2 and 2 with three rows of loadings and
  two rows of factors: the stored variances are \<open>4 / 2\<close>, not \<open>4 / 3\<close>.
\<close>

theorem decomposition_explained_variance_counterexample:
  "fst (decomposition example_backends rpca_args three_by_two) = Inr ReturnNone
   \<and> loadings (learning_results (snd (decomposition example_backends rpca_args three_by_two)))
     = Some [[Fin 2, Fin 0], [Fin 0, Fin 2], [Fin 2, Fin 2]]
   \<and> explained_variance (learning_results (snd (decomposition example_backends rpca_args
        three_by_two))) = Some [Fin 2, Fin 2]
   \<and> explained_variance (learning_results (snd (decomposition example_backends rpca_args
        three_by_two)))
     \<noteq> Some (map (\<lambda>s. f_div (f_mul s s)
                 (Fin (real (length [[Fin 2, Fin 0], [Fin 0, Fin 2], [Fin 2, Fin (2::real)]]))))
              [Fin 2, Fin 2])"
  by (simp add: evaluation evaluation_elbow)

text \<open>
  Claim C8, amended. After a call of \<^verbatim>\<open>decomposition\<close> that returns, with the
  algorithm \<^verbatim>\<open>mlpca\<close> or \<^verbatim>\<open>rpca\<close>, the stored \<^verbatim>\<open>explained_variance\<close> is the vector of
  the squares of the singular values \<open>S\<close> the backend returned, each divided by
  \<^verbatim>\<open>len(factors)\<close>, the number of rows of the matrix \<open>V\<close> the backend returned, cut to
  its first \<^verbatim>\<open>output_dimension\<close> entries when \<open>V\<close> has another number of columns.
\<close>

theorem decomposition_explained_variance:
  assumes "decomposition B a self = (Inr ret, self')"
    and "alg_is (renamed_algorithm a) ''mlpca'' \<or> alg_is (renamed_algorithm a) ''rpca''"
  shows "\<exists>data0 od U S V. kw_output_dimension a = Some od
     \<and> ((alg_is (renamed_algorithm a) ''mlpca''
            \<and> (\<exists>va solver. mlpca B data0 va od solver = Inr (U, S, V)))
        \<or> (alg_is (renamed_algorithm a) ''rpca''
            \<and> (\<exists>X E. rpca_godec B data0 od = Inr (X, E, U, S, V))))
     \<and> explained_variance (learning_results self')
           = Some (cropped (Some od) (ncols V)
                    (map (\<lambda>s. f_div (f_mul s s) (Fin (real (length V)))) S))"
  using assms(1)
proof (cases rule: decomposition_cases)
  case (rejected e)
  then show ?thesis by simp
next
  case (ran c outcome self3 target1 u)
  from ran(4) have out: "outcome = Inr ret" by (cases u) simp_all
  from ran(2)[unfolded out] obtain data0 ft ratio nsc u1 where
    fm: "fit_model B a c data0 = Inr ft" and
    af: "after_fit B a c self3 (include_selector (map_option ravel (kw_navigation_mask a)))
       (include_selector (map_option ravel (kw_signal_mask a))) ft ratio nsc
       LearningResults_init = (Inr u1, target1)"
    by (rule guarded_block_success)
  have alg: "alg_is (c_algorithm c) ''mlpca'' \<or> alg_is (c_algorithm c) ''rpca''"
    using assms(2) checks_locals(1)[OF ran(1)] by simp
  from fit_model_usv[OF fm alg] obtain od U S V where
    usv: "kw_output_dimension a = Some od"
      "(alg_is (c_algorithm c) ''mlpca''
            \<and> (\<exists>va. mlpca B data0 va od (c_svd_solver c) = Inr (U, S, V)))
        \<or> (alg_is (c_algorithm c) ''rpca''
            \<and> (\<exists>X E. rpca_godec B data0 od = Inr (X, E, U, S, V)))"
      "fit_factors ft = V"
      "fit_explained_variance ft
           = Some (map (\<lambda>s. f_div (f_mul s s) (Fin (real (length V)))) S)"
    by blast
  have "explained_variance target1
           = Some (cropped (Some od) (ncols V)
                    (map (\<lambda>s. f_div (f_mul s s) (Fin (real (length V)))) S))"
    using after_fit_success[OF af] usv(1,3,4) by simp
  then have "explained_variance (learning_results self')
           = Some (cropped (Some od) (ncols V)
                    (map (\<lambda>s. f_div (f_mul s s) (Fin (real (length V)))) S))"
    using finally_clause_learning_results[OF ran(3)] by (simp add: dict_update_def)
  moreover have "(alg_is (renamed_algorithm a) ''mlpca''
            \<and> (\<exists>va solver. mlpca B data0 va od solver = Inr (U, S, V)))
        \<or> (alg_is (renamed_algorithm a) ''rpca''
            \<and> (\<exists>X E. rpca_godec B data0 od = Inr (X, E, U, S, V)))"
    using usv(2) checks_locals(1)[OF ran(1)] by auto
  ultimately show ?thesis using usv(1) by blast
qed

theorem decomposition_explained_variance_witness:
  "fst (decomposition example_backends rpca_args three_by_two) = Inr ReturnNone
   \<and> (\<exists>data0 od U S V. kw_output_dimension rpca_args = Some od
     \<and> ((alg_is (renamed_algorithm rpca_args) ''mlpca''
            \<and> (\<exists>va solver. mlpca example_backends data0 va od solver = Inr (U, S, V)))
        \<or> (alg_is (renamed_algorithm rpca_args) ''rpca''
            \<and> (\<exists>X E. rpca_godec example_backends data0 od = Inr (X, E, U, S, V))))
     \<and> explained_variance (learning_results (snd (decomposition example_backends rpca_args
          three_by_two)))
           = Some (cropped (Some od) (ncols V)
                    (map (\<lambda>s. f_div (f_mul s s) (Fin (real (length V)))) S)))"
proof -
  have r: "fst (decomposition example_backends rpca_args three_by_two) = Inr ReturnNone"
    by (simp add: evaluation evaluation_elbow)
  then have h: "decomposition example_backends rpca_args three_by_two
      = (Inr ReturnNone, snd (decomposition example_backends rpca_args three_by_two))"
    by (metis prod.collapse)
  have a: "alg_is (renamed_algorithm rpca_args) ''mlpca''
      \<or> alg_is (renamed_algorithm rpca_args) ''rpca''"
    by (simp add: renamed_algorithm_def evaluation)
  show ?thesis
    using r decomposition_explained_variance[OF h a] by blast
qed

subsection \<open>The configuration errors of \<^verbatim>\<open>decomposition\<close>\<close>

lemma checks_requires_dimension:
  assumes "alg_in (renamed_algorithm a) algorithms_require_dimension"
    and "kw_output_dimension a = None"
  shows "\<exists>e. checks B a self = Inl e"
    and "dtype_is_float self \<Longrightarrow> 2 \<le> navigation_size self \<Longrightarrow>
           checks B a self = Inl ValueError_output_dimension"
  using assms
  by (auto simp: checks_def renamed_algorithm_def split: prod.splits)

lemma decomposition_rejected:
  "checks B a self = Inl e \<Longrightarrow> decomposition B a self = (Inl e, self)"
  by (simp add: decomposition_def)

lemma guarded_block_mlpca_both:
  assumes "c_algorithm c = AlgName ''mlpca''" and "\<not> c_normalize_poissonian_noise c"
    and "kw_var_array a \<noteq> None" and "c_var_func c \<noteq> None"
  shows "\<exists>e. guarded_block B a c self t = (Inl e, self, t)
       \<and> (\<forall>data0. take_block (include_selector (map_option ravel (kw_signal_mask a)))
             (include_selector (map_option ravel (kw_navigation_mask a))) (data self) = Inr data0
             \<longrightarrow> e = ValueError_var_both)"
  using assms
  by (auto simp: guarded_block_def pre_treatment_def fit_model_def mlpca_var_array_def
      alg_is_name Let_def split: sum.splits option.splits)

lemma guarded_block_not_recognised:
  assumes "\<not> alg_in (c_algorithm c) builtin_algorithms" and "c_estim c = None"
  shows "\<exists>e self1. guarded_block B a c self t = (Inl e, self1, t)
       \<and> (\<forall>u self2 data0.
             pre_treatment a c (map_option ravel (kw_navigation_mask a))
               (map_option ravel (kw_signal_mask a)) self = (Inr u, self2)
             \<and> take_block (include_selector (map_option ravel (kw_signal_mask a)))
                 (include_selector (map_option ravel (kw_navigation_mask a))) (data self2)
                 = Inr data0
             \<longrightarrow> e = ValueError_not_recognised)"
proof -
  have n: "\<not> alg_is (c_algorithm c) ''svd''" "\<not> alg_is (c_algorithm c) ''mlpca''"
    "\<not> alg_is (c_algorithm c) ''rpca''" "\<not> alg_is (c_algorithm c) ''orpca''"
    "\<not> alg_is (c_algorithm c) ''ornmf''"
    using assms(1) by (auto simp: alg_is_def alg_in_def builtin_algorithms_def split: algorithm.splits)
  have f: "fit_model B a c data0 = Inl ValueError_not_recognised" for data0
    using n assms(2) by (simp add: fit_model_def)
  show ?thesis
    by (auto simp: guarded_block_def f Let_def split: sum.splits prod.splits)
qed


lemma decomposition_mlpca_both:
  assumes "alg_is (renamed_algorithm a) ''mlpca''" and "kw_var_array a \<noteq> None"
    and "kw_var_func a \<noteq> None \<or> kw_polyfit a \<noteq> None"
  shows "\<exists>e. fst (decomposition B a self) = Inl e"
    and "checks B a self = Inr c \<Longrightarrow>
         take_block (include_selector (map_option ravel (kw_signal_mask a)))
           (include_selector (map_option ravel (kw_navigation_mask a))) (data self) = Inr data0 \<Longrightarrow>
         fst (decomposition B a self) = Inl ValueError_var_both
         \<and> factors (learning_results (snd (decomposition B a self))) = None
         \<and> loadings (learning_results (snd (decomposition B a self))) = None"
proof -
  have block: "\<exists>e. fst (decomposition B a self) = Inl e
       \<and> factors (learning_results (snd (decomposition B a self))) = None
       \<and> loadings (learning_results (snd (decomposition B a self))) = None
       \<and> (\<forall>data0. take_block (include_selector (map_option ravel (kw_signal_mask a)))
             (include_selector (map_option ravel (kw_navigation_mask a))) (data self) = Inr data0
             \<longrightarrow> e = ValueError_var_both)"
    if c: "checks B a self = Inr c" for c
  proof -
    have "c_algorithm c = AlgName ''mlpca''" "\<not> c_normalize_poissonian_noise c"
      "c_var_func c \<noteq> None"
      using checks_locals(1,3,4)[OF c] assms(1,3)
      by (auto simp: alg_is_name split: option.splits)
    from guarded_block_mlpca_both[OF this(1,2) assms(2) this(3),
        of B "before_block a self" LearningResults_init]
    obtain e where
      g: "guarded_block B a c (before_block a self) LearningResults_init
            = (Inl e, before_block a self, LearningResults_init)"
      and e: "\<forall>data0. take_block (include_selector (map_option ravel (kw_signal_mask a)))
             (include_selector (map_option ravel (kw_navigation_mask a)))
             (data (before_block a self)) = Inr data0 \<longrightarrow> e = ValueError_var_both"
      by blast
    show ?thesis
      using decomposition_outcome(1,2)[OF c g] e before_block_frame[of a self]
      by (simp add: dict_update_def LearningResults_init_def)
  qed
  show "\<exists>e. fst (decomposition B a self) = Inl e"
  proof (cases "checks B a self")
    case (Inl e)
    then show ?thesis by (simp add: decomposition_rejected)
  next
    case (Inr c)
    then show ?thesis using block by blast
  qed
  show "fst (decomposition B a self) = Inl ValueError_var_both
         \<and> factors (learning_results (snd (decomposition B a self))) = None
         \<and> loadings (learning_results (snd (decomposition B a self))) = None"
    if "checks B a self = Inr c"
      "take_block (include_selector (map_option ravel (kw_signal_mask a)))
           (include_selector (map_option ravel (kw_navigation_mask a))) (data self) = Inr data0"
    using block[OF that(1)] that(2) by auto
qed

lemma decomposition_not_recognised:
  assumes "not_recognised B a"
  shows "\<exists>e. fst (decomposition B a self) = Inl e"
    and "checks B a self = Inr c \<Longrightarrow>
         pre_treatment a c (map_option ravel (kw_navigation_mask a))
           (map_option ravel (kw_signal_mask a)) (before_block a self) = (Inr u, self1) \<Longrightarrow>
         take_block (include_selector (map_option ravel (kw_signal_mask a)))
           (include_selector (map_option ravel (kw_navigation_mask a))) (data self1) = Inr data0 \<Longrightarrow>
         fst (decomposition B a self) = Inl ValueError_not_recognised
         \<and> factors (learning_results (snd (decomposition B a self))) = None
         \<and> loadings (learning_results (snd (decomposition B a self))) = None"
proof -
  have block: "\<exists>e. fst (decomposition B a self) = Inl e
       \<and> factors (learning_results (snd (decomposition B a self))) = None
       \<and> loadings (learning_results (snd (decomposition B a self))) = None
       \<and> (\<forall>u self2 data0.
             pre_treatment a c (map_option ravel (kw_navigation_mask a))
               (map_option ravel (kw_signal_mask a)) (before_block a self) = (Inr u, self2)
             \<and> take_block (include_selector (map_option ravel (kw_signal_mask a)))
                 (include_selector (map_option ravel (kw_navigation_mask a))) (data self2)
                 = Inr data0
             \<longrightarrow> e = ValueError_not_recognised)"
    if c: "checks B a self = Inr c" for c
  proof -
    have "\<not> alg_in (c_algorithm c) builtin_algorithms" "c_estim c = None"
      using checks_locals(1,2)[OF c] assms by (simp_all add: not_recognised_def)
    from guarded_block_not_recognised[OF this, of B a "before_block a self" LearningResults_init]
    obtain e self1 where
      g: "guarded_block B a c (before_block a self) LearningResults_init
            = (Inl e, self1, LearningResults_init)"
      and e: "\<forall>u self2 data0.
             pre_treatment a c (map_option ravel (kw_navigation_mask a))
               (map_option ravel (kw_signal_mask a)) (before_block a self) = (Inr u, self2)
             \<and> take_block (include_selector (map_option ravel (kw_signal_mask a)))
                 (include_selector (map_option ravel (kw_navigation_mask a))) (data self2)
                 = Inr data0
             \<longrightarrow> e = ValueError_not_recognised"
      by blast
    show ?thesis
      using decomposition_outcome(1,2)[OF c g] e
      by (simp add: dict_update_def LearningResults_init_def)
  qed
  show "\<exists>e. fst (decomposition B a self) = Inl e"
  proof (cases "checks B a self")
    case (Inl e)
    then show ?thesis by (simp add: decomposition_rejected)
  next
    case (Inr c)
    then show ?thesis using block by blast
  qed
  show "fst (decomposition B a self) = Inl ValueError_not_recognised
         \<and> factors (learning_results (snd (decomposition B a self))) = None
         \<and> loadings (learning_results (snd (decomposition B a self))) = None"
    if "checks B a self = Inr c"
      "pre_treatment a c (map_option ravel (kw_navigation_mask a))
           (map_option ravel (kw_signal_mask a)) (before_block a self) = (Inr u, self1)"
      "take_block (include_selector (map_option ravel (kw_signal_mask a)))
           (include_selector (map_option ravel (kw_navigation_mask a))) (data self1) = Inr data0"
    using block[OF that(1)] that(2,3) by blast
qed

text \<open>
  Claim C5. In each of the three cases the call fails whatever the collaborators are,
  and no factors or loadings are stored by it. (1) The algorithm, after the renaming of
  the deprecated names, is one of \<^verbatim>\<open>mlpca\<close>, \<^verbatim>\<open>rpca\<close>, \<^verbatim>\<open>orpca\<close>, \<^verbatim>\<open>ornmf\<close> and
  \<^verbatim>\<open>output_dimension\<close> is \<^verbatim>\<open>None\<close>: the signal is left as it was, and the error is the
  ValueError of line 278 as soon as the data has passed the two checks before it (float
  type, at least two navigation positions). (2) The algorithm is \<^verbatim>\<open>mlpca\<close> and both
  \<^verbatim>\<open>var_array\<close> and \<^verbatim>\<open>var_func\<close> (or \<^verbatim>\<open>polyfit\<close>, which replaces it) are given: the
  error is the ValueError of line 421 when the checks pass and the masks fit the data.
  (3) The algorithm is none of the names the method knows and is not usable as an
  estimator: the error is the ValueError of line 522 when the checks pass and the block
  reaches the dispatch. All three are \<^verbatim>\<open>ValueError\<close>, the spec's ConfigurationError.
\<close>

theorem decomposition_configuration_errors:
  "(alg_in (renamed_algorithm a) algorithms_require_dimension \<and> kw_output_dimension a = None
      \<longrightarrow> (\<exists>e. decomposition B a self = (Inl e, self))
        \<and> (dtype_is_float self \<and> 2 \<le> navigation_size self
             \<longrightarrow> decomposition B a self = (Inl ValueError_output_dimension, self)))
   \<and> (alg_is (renamed_algorithm a) ''mlpca'' \<and> kw_var_array a \<noteq> None
        \<and> (kw_var_func a \<noteq> None \<or> kw_polyfit a \<noteq> None)
      \<longrightarrow> (\<exists>e. fst (decomposition B a self) = Inl e)
        \<and> (\<forall>c data0. checks B a self = Inr c
              \<and> take_block (include_selector (map_option ravel (kw_signal_mask a)))
                  (include_selector (map_option ravel (kw_navigation_mask a))) (data self)
                  = Inr data0
             \<longrightarrow> fst (decomposition B a self) = Inl ValueError_var_both
               \<and> factors (learning_results (snd (decomposition B a self))) = None
               \<and> loadings (learning_results (snd (decomposition B a self))) = None))
   \<and> (not_recognised B a
      \<longrightarrow> (\<exists>e. fst (decomposition B a self) = Inl e)
        \<and> (\<forall>c u self1 data0. checks B a self = Inr c
              \<and> pre_treatment a c (map_option ravel (kw_navigation_mask a))
                  (map_option ravel (kw_signal_mask a)) (before_block a self) = (Inr u, self1)
              \<and> take_block (include_selector (map_option ravel (kw_signal_mask a)))
                  (include_selector (map_option ravel (kw_navigation_mask a))) (data self1)
                  = Inr data0
             \<longrightarrow> fst (decomposition B a self) = Inl ValueError_not_recognised
               \<and> factors (learning_results (snd (decomposition B a self))) = None
               \<and> loadings (learning_results (snd (decomposition B a self))) = None))"
proof (intro conjI impI allI)
  assume h: "alg_in (renamed_algorithm a) algorithms_require_dimension
     \<and> kw_output_dimension a = None"
  then show "\<exists>e. decomposition B a self = (Inl e, self)"
    using checks_requires_dimension(1)[of a B self] decomposition_rejected by blast
  assume "dtype_is_float self \<and> 2 \<le> navigation_size self"
  then show "decomposition B a self = (Inl ValueError_output_dimension, self)"
    using h checks_requires_dimension(2)[of a self B] decomposition_rejected by blast
next
  assume h: "alg_is (renamed_algorithm a) ''mlpca'' \<and> kw_var_array a \<noteq> None
        \<and> (kw_var_func a \<noteq> None \<or> kw_polyfit a \<noteq> None)"
  then show "\<exists>e. fst (decomposition B a self) = Inl e"
    using decomposition_mlpca_both(1) by blast
  fix c data0
  assume "checks B a self = Inr c
       \<and> take_block (include_selector (map_option ravel (kw_signal_mask a)))
           (include_selector (map_option ravel (kw_navigation_mask a))) (data self) = Inr data0"
  then have r: "fst (decomposition B a self) = Inl ValueError_var_both
         \<and> factors (learning_results (snd (decomposition B a self))) = None
         \<and> loadings (learning_results (snd (decomposition B a self))) = None"
    using h decomposition_mlpca_both(2)[of a B self c data0] by blast
  from r show "fst (decomposition B a self) = Inl ValueError_var_both" by blast
  from r show "factors (learning_results (snd (decomposition B a self))) = None" by blast
  from r show "loadings (learning_results (snd (decomposition B a self))) = None" by blast
next
  assume h: "not_recognised B a"
  then show "\<exists>e. fst (decomposition B a self) = Inl e"
    using decomposition_not_recognised(1) by blast
  fix c u self1 data0
  assume "checks B a self = Inr c
       \<and> pre_treatment a c (map_option ravel (kw_navigation_mask a))
           (map_option ravel (kw_signal_mask a)) (before_block a self) = (Inr u, self1)
       \<and> take_block (include_selector (map_option ravel (kw_signal_mask a)))
           (include_selector (map_option ravel (kw_navigation_mask a))) (data self1) = Inr data0"
  then have r: "fst (decomposition B a self) = Inl ValueError_not_recognised
         \<and> factors (learning_results (snd (decomposition B a self))) = None
         \<and> loadings (learning_results (snd (decomposition B a self))) = None"
    using h decomposition_not_recognised(2)[of B a self c u self1 data0] by blast
  from r show "fst (decomposition B a self) = Inl ValueError_not_recognised" by blast
  from r show "factors (learning_results (snd (decomposition B a self))) = None" by blast
  from r show "loadings (learning_results (snd (decomposition B a self))) = None" by blast
qed

theorem decomposition_configuration_errors_witness:
  "decomposition failing_backends rpca_without_dimension three_by_two
     = (Inl ValueError_output_dimension, three_by_two)
   \<and> fst (decomposition failing_backends mlpca_with_both three_by_two) = Inl ValueError_var_both
   \<and> fst (decomposition failing_backends unknown_algorithm three_by_two)
     = Inl ValueError_not_recognised"
proof -
  let ?d = "[[Fin 1, Fin 2], [Fin 3, Fin 4], [Fin 5, Fin 6]]"
  have h1: "alg_in (renamed_algorithm rpca_without_dimension) algorithms_require_dimension
      \<and> kw_output_dimension rpca_without_dimension = None"
    by (simp add: renamed_algorithm_def evaluation)
  have d1: "dtype_is_float three_by_two \<and> 2 \<le> navigation_size three_by_two"
    by (simp add: three_by_two_def signal_of_def)
  have 1: "decomposition failing_backends rpca_without_dimension three_by_two
      = (Inl ValueError_output_dimension, three_by_two)"
    using decomposition_configuration_errors
      [of rpca_without_dimension failing_backends three_by_two] h1 d1
    by blast
  have h2: "alg_is (renamed_algorithm mlpca_with_both) ''mlpca''
      \<and> kw_var_array mlpca_with_both \<noteq> None
      \<and> (kw_var_func mlpca_with_both \<noteq> None \<or> kw_polyfit mlpca_with_both \<noteq> None)"
    by (simp add: renamed_algorithm_def evaluation)
  have c2: "checks failing_backends mlpca_with_both three_by_two
      = Inr \<lparr> c_algorithm = AlgName ''mlpca'', c_svd_solver = ''auto'',
              c_is_sklearn_like = False, c_estim = None,
              c_normalize_poissonian_noise = False, c_var_func = Some VarOther \<rparr>
      \<and> take_block (include_selector (map_option ravel (kw_signal_mask mlpca_with_both)))
          (include_selector (map_option ravel (kw_navigation_mask mlpca_with_both)))
          (data three_by_two) = Inr ?d"
    by (simp add: evaluation)
  have 2: "fst (decomposition failing_backends mlpca_with_both three_by_two)
      = Inl ValueError_var_both"
    using decomposition_configuration_errors
      [of mlpca_with_both failing_backends three_by_two] h2 c2
    by blast
  have h3: "not_recognised failing_backends unknown_algorithm"
    by (simp add: not_recognised_def renamed_algorithm_def builtin_algorithms_def evaluation)
  have c3: "checks failing_backends unknown_algorithm three_by_two
      = Inr \<lparr> c_algorithm = AlgName ''pca'', c_svd_solver = ''auto'',
              c_is_sklearn_like = False, c_estim = None,
              c_normalize_poissonian_noise = False, c_var_func = None \<rparr>
      \<and> pre_treatment unknown_algorithm
          \<lparr> c_algorithm = AlgName ''pca'', c_svd_solver = ''auto'',
            c_is_sklearn_like = False, c_estim = None,
            c_normalize_poissonian_noise = False, c_var_func = None \<rparr>
          (map_option ravel (kw_navigation_mask unknown_algorithm))
          (map_option ravel (kw_signal_mask unknown_algorithm))
          (before_block unknown_algorithm three_by_two)
        = (Inr (), before_block unknown_algorithm three_by_two)
      \<and> take_block (include_selector (map_option ravel (kw_signal_mask unknown_algorithm)))
          (include_selector (map_option ravel (kw_navigation_mask unknown_algorithm)))
          (data (before_block unknown_algorithm three_by_two)) = Inr ?d"
    by (simp add: evaluation)
  have 3: "fst (decomposition failing_backends unknown_algorithm three_by_two)
      = Inl ValueError_not_recognised"
    using decomposition_configuration_errors
      [of unknown_algorithm failing_backends three_by_two] h3 c3
    by blast
  show ?thesis using 1 2 3 by blast
qed

subsection \<open>The sign reversal of the BSS components\<close>

lemma f_mul_minus_one: "f_mul x (Fin (- 1)) = f_neg x"
  by (cases x) (simp_all add: inf_signed_def)

lemma np_min_nonempty: "xs \<noteq> [] \<Longrightarrow> \<exists>m. np_min xs = Inr m"
  by (induction xs rule: np_min.induct) (auto split: sum.splits)

lemma np_max_nonempty: "xs \<noteq> [] \<Longrightarrow> \<exists>m. np_max xs = Inr m"
  by (induction xs rule: np_max.induct) (auto split: sum.splits)

lemma np_nanmin_nonempty: "xs \<noteq> [] \<Longrightarrow> \<exists>m. np_nanmin xs = Inr m"
  using np_min_nonempty by (auto simp: np_nanmin_def split: list.splits)

lemma np_nanmax_nonempty: "xs \<noteq> [] \<Longrightarrow> \<exists>m. np_nanmax xs = Inr m"
  using np_max_nonempty by (auto simp: np_nanmax_def split: list.splits)

lemma f_less_zero_neg_abs: "f_less m (Fin 0) \<Longrightarrow> f_neg m = f_abs m"
  by (cases m) auto

lemma reversal_test_is_reversed:
  assumes "values \<noteq> []"
  shows "reversal_test (map (\<lambda>r. r ! i) values) = Inr (is_reversed values i)"
proof -
  have ne: "map (\<lambda>r. r ! i) values \<noteq> []" using assms by simp
  obtain m where m: "np_nanmin (map (\<lambda>r. r ! i) values) = Inr m"
    using np_nanmin_nonempty[OF ne] by blast
  obtain M where M: "np_nanmax (map (\<lambda>r. r ! i) values) = Inr M"
    using np_nanmax_nonempty[OF ne] by blast
  show ?thesis
    using m M f_less_zero_neg_abs[of m]
    by (auto simp: reversal_test_def is_reversed_def)
qed

lemma has_columns_ncols: "has_columns n M \<Longrightarrow> ncols M = n"
  by (cases M) (auto simp: has_columns_def ncols_def)

lemma column_of: "has_columns n M \<Longrightarrow> i < n \<Longrightarrow> column i M = Inr (map (\<lambda>r. r ! i) M)"
  by (simp add: column_def has_columns_ncols)

lemma negate_columns_where_has_columns:
  "has_columns n M \<Longrightarrow> has_columns n (negate_columns_where P M)"
  by (auto simp: has_columns_def negate_columns_where_def)

lemma negate_columns_where_column:
  assumes "has_columns n M" "i < n" "\<not> P i"
  shows "map (\<lambda>r. r ! i) (negate_columns_where P M) = map (\<lambda>r. r ! i) M"
  using assms by (auto simp: has_columns_def negate_columns_where_def)

lemma negate_columns_where_none:
  "negate_columns_where (\<lambda>j. False) M = M"
  by (simp add: negate_columns_where_def map_nth)

lemma negate_columns_where_cong:
  assumes "has_columns n M" "\<And>j. j < n \<Longrightarrow> P j = Q j"
  shows "negate_columns_where P M = negate_columns_where Q M"
  using assms by (auto simp: has_columns_def negate_columns_where_def)

lemma negate_column_step:
  assumes "has_columns n M" "k < n"
  shows "negate_column k (negate_columns_where (\<lambda>j. j < k \<and> P j) M)
       = Inr (negate_columns_where (\<lambda>j. j < k \<and> P j \<or> j = k) M)"
proof -
  have c: "ncols (negate_columns_where (\<lambda>j. j < k \<and> P j) M) = n"
    using assms(1) by (simp add: has_columns_ncols negate_columns_where_has_columns)
  have "(map (\<lambda>j. if j < k \<and> P j then f_neg (r ! j) else r ! j) [0..<length r])
          [k := f_mul (map (\<lambda>j. if j < k \<and> P j then f_neg (r ! j) else r ! j) [0..<length r] ! k)
                  (Fin (- 1))]
        = map (\<lambda>j. if j < k \<and> P j \<or> j = k then f_neg (r ! j) else r ! j) [0..<length r]"
    if "length r = n" for r
    using that assms(2) by (auto simp: list_eq_iff_nth_eq nth_list_update f_mul_minus_one)
  then show ?thesis
    using assms c by (auto simp: negate_column_def negate_columns_where_def has_columns_def)
qed

lemma negate_rows_where_none: "negate_rows_where (\<lambda>j. False) M = M"
  by (simp add: negate_rows_where_def map_nth)

lemma negate_rows_where_cong:
  assumes "\<And>j. j < length M \<Longrightarrow> P j = Q j"
  shows "negate_rows_where P M = negate_rows_where Q M"
  using assms by (auto simp: negate_rows_where_def)

lemma negate_rows_where_length: "length (negate_rows_where P M) = length M"
  by (simp add: negate_rows_where_def)

lemma negate_rows_where_nth:
  "i < length M \<Longrightarrow> negate_rows_where P M ! i = (if P i then map f_neg (M ! i) else M ! i)"
  by (simp add: negate_rows_where_def)

lemma map_minus_one: "map (\<lambda>x. f_mul x (Fin (- 1))) r = map f_neg r"
  by (simp add: f_mul_minus_one)

lemma negate_row_step:
  assumes "k < length M"
  shows "negate_row k (negate_rows_where (\<lambda>j. j < k \<and> P j) M)
       = Inr (negate_rows_where (\<lambda>j. j < k \<and> P j \<or> j = k) M)"
proof -
  let ?A = "negate_rows_where (\<lambda>j. j < k \<and> P j) M"
  let ?B = "negate_rows_where (\<lambda>j. j < k \<and> P j \<or> j = k) M"
  have "?A[k := map (\<lambda>x. f_mul x (Fin (- 1))) (?A ! k)] = ?B"
  proof (rule nth_equalityI)
    show "length (?A[k := map (\<lambda>x. f_mul x (Fin (- 1))) (?A ! k)]) = length ?B"
      by (simp add: negate_rows_where_length)
  next
    fix i assume "i < length (?A[k := map (\<lambda>x. f_mul x (Fin (- 1))) (?A ! k)])"
    then have i: "i < length M" by (simp add: negate_rows_where_length)
    show "?A[k := map (\<lambda>x. f_mul x (Fin (- 1))) (?A ! k)] ! i = ?B ! i"
    proof (cases "i = k")
      case True
      then show ?thesis
        using assms
        by (simp add: negate_rows_where_length negate_rows_where_nth map_minus_one)
    next
      case False
      then show ?thesis
        using i by (simp add: negate_rows_where_nth)
    qed
  qed
  then show ?thesis
    using assms by (simp add: negate_row_def negate_rows_where_length)
qed


lemma reverse_bss_component_step:
  assumes "has_columns n F" "has_columns n L" "length W = n" "k < n"
  shows "reverse_bss_component k (with_reversed (\<lambda>j. j < k \<and> P j) F L W lr)
       = (Inr (), with_reversed (\<lambda>j. j < k \<and> P j \<or> j = k) F L W lr)"
  using assms negate_column_step[OF assms(1,4), of P] negate_column_step[OF assms(2,4), of P]
    negate_row_step[of k W P]
  by (simp add: reverse_bss_component_def with_reversed_def)

lemma with_reversed_cong:
  assumes "has_columns n F" "has_columns n L" "length W = n" "\<And>j. j < n \<Longrightarrow> P j = Q j"
  shows "with_reversed P F L W lr = with_reversed Q F L W lr"
  using negate_columns_where_cong[OF assms(1), of P Q]
    negate_columns_where_cong[OF assms(2), of P Q]
    negate_rows_where_cong[of W P Q] assms(3,4)
  by (simp add: with_reversed_def)

lemma auto_reverse_step_invariant:
  assumes F: "has_columns n F" and L: "has_columns n L" and W: "length W = n"
    and c: "criterion = ''factors'' \<and> values = F \<or> criterion = ''loadings'' \<and> values = L"
    and k: "k < n"
  shows "auto_reverse_step criterion k
           (with_reversed (\<lambda>j. j < k \<and> is_reversed values j) F L W lr)
       = (Inr (), with_reversed (\<lambda>j. j < Suc k \<and> is_reversed values j) F L W lr)"
proof -
  let ?Q = "\<lambda>j. j < k \<and> is_reversed values j"
  let ?lr = "with_reversed ?Q F L W lr"
  have v: "has_columns n values" "values \<noteq> []"
    using c F L by (auto simp: has_columns_def)
  have sel: "(if criterion = ''factors'' then Inr (bss_factors ?lr)
            else if criterion = ''loadings'' then Inr (bss_loadings ?lr)
            else Inl ValueError_criterion) = Inr (Some (negate_columns_where ?Q values))"
    using c by (auto simp: with_reversed_def)
  have col: "column k (negate_columns_where ?Q values) = Inr (map (\<lambda>r. r ! k) values)"
    using column_of[OF negate_columns_where_has_columns[OF v(1)] k, of ?Q]
      negate_columns_where_column[OF v(1) k, of ?Q] by simp
  have test: "reversal_test (map (\<lambda>r. r ! k) values) = Inr (is_reversed values k)"
    using reversal_test_is_reversed[OF v(2)] .
  show ?thesis
  proof (cases "is_reversed values k")
    case True
    have "with_reversed (\<lambda>j. j < k \<and> is_reversed values j \<or> j = k) F L W lr
        = with_reversed (\<lambda>j. j < Suc k \<and> is_reversed values j) F L W lr"
      using True by (intro with_reversed_cong[OF F L W]) auto
    then show ?thesis
      using True sel col test reverse_bss_component_step[OF F L W k, of "is_reversed values" lr]
      by (simp add: auto_reverse_step_def)
  next
    case False
    have eq: "with_reversed ?Q F L W lr
        = with_reversed (\<lambda>j. j < Suc k \<and> is_reversed values j) F L W lr"
      using False by (intro with_reversed_cong[OF F L W]) (auto simp: less_Suc_eq)
    have s: "auto_reverse_step criterion k ?lr = (Inr (), ?lr)"
      using False sel col test by (simp add: auto_reverse_step_def)
    show ?thesis by (subst s) (simp add: eq)
  qed
qed

lemma auto_reverse_loop_invariant:
  assumes F: "has_columns n F" and L: "has_columns n L" and W: "length W = n"
    and c: "criterion = ''factors'' \<and> values = F \<or> criterion = ''loadings'' \<and> values = L"
  shows "k \<le> n \<Longrightarrow>
         auto_reverse_loop criterion [k..<n]
           (with_reversed (\<lambda>j. j < k \<and> is_reversed values j) F L W lr)
       = (Inr (), with_reversed (\<lambda>j. j < n \<and> is_reversed values j) F L W lr)"
proof (induction "n - k" arbitrary: k)
  case 0
  then have "k = n" by simp
  then show ?case by simp
next
  case (Suc d)
  then have k: "k < n" and d: "d = n - Suc k" and le: "Suc k \<le> n" by auto
  have "[k..<n] = k # [Suc k..<n]" using k by (simp add: upt_conv_Cons)
  then show ?case
    using auto_reverse_step_invariant[OF F L W c k, of lr] Suc(1)[OF d le]
    by simp
qed

text \<open>
  Claim C6. Let the store hold BSS factors and BSS loadings of \<open>n\<close> columns each and
  an unmixing matrix of \<open>n\<close> rows, and let \<open>values\<close> be the array the criterion
  names. The pass \<^verbatim>\<open>_auto_reverse_bss_component\<close> returns, and it leaves the store in
  which, for every component \<open>i\<close>, column \<open>i\<close> of the BSS factors and of the BSS
  loadings and row \<open>i\<close> of the unmixing matrix are negated if the minimum \<open>m\<close> and the
  maximum \<open>M\<close> of column \<open>i\<close> of \<open>values\<close>, NaN ignored, satisfy \<open>m < 0\<close> and
  \<open>\<bar>m\<bar> > M\<close>, and are unchanged if not. The column \<open>[-5, 1, 2]\<close> satisfies the test,
  the column \<open>[-1, 5, 2]\<close> does not.
\<close>

theorem auto_reverse_bss_component_rule:
  assumes "bss_factors lr = Some F" and "bss_loadings lr = Some L"
    and "unmixing_matrix lr = Some W"
    and "has_columns n F" and "has_columns n L" and "length W = n"
    and "criterion = ''factors'' \<and> values = F \<or> criterion = ''loadings'' \<and> values = L"
  shows "auto_reverse_bss_component criterion lr
           = (Inr (), with_reversed (is_reversed values) F L W lr)
       \<and> is_reversed [[Fin (- 5)], [Fin 1], [Fin 2]] 0
       \<and> \<not> is_reversed [[Fin (- 1)], [Fin 5], [Fin 2]] 0"
proof -
  have start: "with_reversed (\<lambda>j. j < 0 \<and> is_reversed values j) F L W lr = lr"
    using assms(1-3)
    by (simp add: with_reversed_def negate_columns_where_none negate_rows_where_none)
  have "with_reversed (\<lambda>j. j < n \<and> is_reversed values j) F L W lr
      = with_reversed (is_reversed values) F L W lr"
    by (intro with_reversed_cong[OF assms(4-6)]) simp
  then have "auto_reverse_bss_component criterion lr
           = (Inr (), with_reversed (is_reversed values) F L W lr)"
    using auto_reverse_loop_invariant[OF assms(4-7), of 0 lr] start assms(1)
      has_columns_ncols[OF assms(4)]
    by (simp add: auto_reverse_bss_component_def)
  moreover have "is_reversed [[Fin (- 5)], [Fin 1], [Fin 2]] 0"
    by (simp add: is_reversed_def np_nanmin_def np_nanmax_def is_nan_def np_minimum_def
        np_maximum_def)
  moreover have "\<not> is_reversed [[Fin (- 1)], [Fin 5], [Fin 2]] 0"
    by (simp add: is_reversed_def np_nanmin_def np_nanmax_def is_nan_def np_minimum_def
        np_maximum_def)
  ultimately show ?thesis by blast
qed

theorem auto_reverse_bss_component_rule_witness:
  "auto_reverse_bss_component ''factors'' separated_results
     = (Inr (),
        separated_results
          \<lparr> bss_factors := Some [[Fin 5, Fin (- 1)], [Fin (- 1), Fin 5], [Fin (- 2), Fin 2]],
            bss_loadings := Some [[Fin (- 1), Fin 3], [Fin (- 2), Fin 4]],
            unmixing_matrix := Some [[Fin (- 1), Fin (- 2)], [Fin 3, Fin 4]] \<rparr>)"
proof -
  let ?F = "[[Fin (- 5), Fin (- 1)], [Fin 1, Fin 5], [Fin 2, Fin 2]]"
  let ?L = "[[Fin 1, Fin 3], [Fin 2, Fin 4]]"
  let ?W = "[[Fin 1, Fin 2], [Fin 3, Fin 4]]"
  have s: "bss_factors separated_results = Some ?F" "bss_loadings separated_results = Some ?L"
    "unmixing_matrix separated_results = Some ?W"
    by (simp_all add: separated_results_def)
  have w: "has_columns 2 ?F" "has_columns 2 ?L" "length ?W = 2"
    by (simp_all add: has_columns_def)
  have c: "''factors'' = ''factors'' \<and> ?F = ?F \<or> ''factors'' = ''loadings'' \<and> ?F = ?L"
    by simp
  have r: "is_reversed ?F 0" "\<not> is_reversed ?F 1"
    by (simp_all add: is_reversed_def np_nanmin_def np_nanmax_def is_nan_def np_minimum_def
        np_maximum_def)
  have e: "with_reversed (is_reversed ?F) ?F ?L ?W separated_results
      = separated_results
          \<lparr> bss_factors := Some [[Fin 5, Fin (- 1)], [Fin (- 1), Fin 5], [Fin (- 2), Fin 2]],
            bss_loadings := Some [[Fin (- 1), Fin 3], [Fin (- 2), Fin 4]],
            unmixing_matrix := Some [[Fin (- 1), Fin (- 2)], [Fin 3, Fin 4]] \<rparr>"
    using r by (simp add: with_reversed_def negate_columns_where_def negate_rows_where_def
        upt_conv_Cons)
  show ?thesis
    using auto_reverse_bss_component_rule[OF s w c] e by simp
qed

subsection \<open>The normalisation of the components\<close>

lemma f_mul_div_cancel:
  assumes "r \<noteq> 0"
  shows "f_mul (f_div x (Fin r)) (f_mul y (Fin r)) = f_mul x y"
  using assms
  by (cases x; cases y)
     (auto simp: inf_signed_def zero_less_divide_iff zero_less_mult_iff divide_less_0_iff
       mult_less_0_iff not_less order_le_less)

lemma f_mul_mul_div_cancel:
  assumes "r \<noteq> 0"
  shows "f_mul (f_mul x (Fin r)) (f_div y (Fin r)) = f_mul x y"
  using assms
  by (cases x; cases y)
     (auto simp: inf_signed_def zero_less_divide_iff zero_less_mult_iff divide_less_0_iff
       mult_less_0_iff not_less order_le_less)


lemma dot_divide_multiply:
  assumes "length f = length cs" "length l = length cs" "\<forall>c\<in>set cs. nonzero_number c"
  shows "np_sum (map2 f_mul (map2 f_div f cs) (map2 f_mul l cs)) = np_sum (map2 f_mul f l)"
proof -
  have "length f = length cs" "length cs = length l" using assms by simp_all
  then show ?thesis using assms(3)
proof (induction f cs l rule: list_induct3)
  case Nil
  then show ?case by simp
next
  case (Cons x xs c cs y ys)
  then obtain r where "c = Fin r" "r \<noteq> 0" by (auto simp: nonzero_number_def)
  then show ?case using Cons by (simp add: f_mul_div_cancel)
qed
qed

lemma dot_multiply_divide:
  assumes "length f = length cs" "length l = length cs" "\<forall>c\<in>set cs. nonzero_number c"
  shows "np_sum (map2 f_mul (map2 f_mul f cs) (map2 f_div l cs)) = np_sum (map2 f_mul f l)"
proof -
  have "length f = length cs" "length cs = length l" using assms by simp_all
  then show ?thesis using assms(3)
proof (induction f cs l rule: list_induct3)
  case Nil
  then show ?case by simp
next
  case (Cons x xs c cs y ys)
  then obtain r where "c = Fin r" "r \<noteq> 0" by (auto simp: nonzero_number_def)
  then show ?case using Cons by (simp add: f_mul_mul_div_cancel)
qed
qed

lemma reconstruction_divide_multiply:
  assumes "\<forall>r\<in>set F. length r = length cs" "\<forall>r\<in>set L. length r = length cs"
    "\<forall>c\<in>set cs. nonzero_number c"
  shows "reconstruction (map (\<lambda>r. map2 f_div r cs) F) (map (\<lambda>r. map2 f_mul r cs) L)
       = reconstruction F L"
  using assms by (simp add: reconstruction_def comp_def dot_divide_multiply)

lemma reconstruction_multiply_divide:
  assumes "\<forall>r\<in>set F. length r = length cs" "\<forall>r\<in>set L. length r = length cs"
    "\<forall>c\<in>set cs. nonzero_number c"
  shows "reconstruction (map (\<lambda>r. map2 f_mul r cs) F) (map (\<lambda>r. map2 f_div r cs) L)
       = reconstruction F L"
  using assms by (simp add: reconstruction_def comp_def dot_multiply_divide)

lemma map2_as_nth:
  "length xs = length ys \<Longrightarrow> map2 f xs ys = map (\<lambda>j. f (xs ! j) (ys ! j)) [0..<length xs]"
  by (rule nth_equalityI) simp_all

lemma divide_columns_map2:
  "\<forall>r\<in>set M. length r = length cs \<Longrightarrow> map (\<lambda>r. map2 f_div r cs) M = divide_columns M cs"
  by (simp add: divide_columns_def map2_as_nth)

lemma multiply_columns_map2:
  "\<forall>r\<in>set M. length r = length cs \<Longrightarrow> map (\<lambda>r. map2 f_mul r cs) M = multiply_columns M cs"
  by (simp add: multiply_columns_def map2_as_nth)

lemma length_columns_of: "has_columns k M \<Longrightarrow> length (coefficients function M) = k"
  by (simp add: coefficients_def columns_of_def has_columns_ncols)

lemma normalize_components_result:
  assumes "has_columns k target" "has_columns k other"
  shows "normalize_components function target (Some other)
       = (Inr (), divide_columns target (coefficients function target),
          Some (multiply_columns other (coefficients function target)))"
proof -
  let ?cs = "coefficients function target"
  have len: "length ?cs = k" using length_columns_of[OF assms(1)] .
  have t: "\<forall>r\<in>set target. length r = length ?cs" and o: "\<forall>r\<in>set other. length r = length ?cs"
    using assms len by (auto simp: has_columns_def)
  have "imul_rowvec other ?cs = Inr (multiply_columns other ?cs)"
    using has_columns_ncols[OF assms(2)] len multiply_columns_map2[OF o]
    by (simp add: imul_rowvec_def)
  then show ?thesis
    using divide_columns_map2[OF t] by (simp add: normalize_components_def Let_def)
qed

lemma reconstruction_normalized:
  assumes "has_columns k target" "has_columns k other"
    and "\<forall>c\<in>set (coefficients function target). nonzero_number c"
  shows "reconstruction (divide_columns target (coefficients function target))
           (multiply_columns other (coefficients function target))
         = reconstruction target other"
    and "reconstruction (multiply_columns other (coefficients function target))
           (divide_columns target (coefficients function target))
         = reconstruction other target"
proof -
  let ?cs = "coefficients function target"
  have len: "length ?cs = k" using length_columns_of[OF assms(1)] .
  have t: "\<forall>r\<in>set target. length r = length ?cs" and o: "\<forall>r\<in>set other. length r = length ?cs"
    using assms len by (auto simp: has_columns_def)
  show "reconstruction (divide_columns target ?cs) (multiply_columns other ?cs)
         = reconstruction target other"
    using reconstruction_divide_multiply[OF t o assms(3)]
      divide_columns_map2[OF t] multiply_columns_map2[OF o] by simp
  show "reconstruction (multiply_columns other ?cs) (divide_columns target ?cs)
         = reconstruction other target"
    using reconstruction_multiply_divide[OF o t assms(3)]
      divide_columns_map2[OF t] multiply_columns_map2[OF o] by simp
qed


text \<open>
  Claim C10. Let the factors \<open>F\<close> and the loadings \<open>L\<close> (of the decomposition or of
  the BSS) have \<open>k\<close> columns each, and let every coefficient
  \<^verbatim>\<open>function(target, axis=0)\<close> of the target array be a number other than zero. Then
  \<^verbatim>\<open>normalize_decomposition_components\<close> and \<^verbatim>\<open>normalize_bss_components\<close> return,
  the target array has every column divided by its coefficient, the other array has
  every column multiplied by the same coefficient, and the reconstruction
  \<^verbatim>\<open>factors @ loadings.T\<close> is the one of before. (A coefficient that is NaN or
  infinite is not a number other than zero.)
\<close>

theorem normalize_components_reconstruction:
  assumes "has_columns k F" and "has_columns k L"
    and "target_arg = ''factors'' \<and> T = F
           \<and> F' = divide_columns F (coefficients function F)
           \<and> L' = multiply_columns L (coefficients function F)
       \<or> target_arg = ''loadings'' \<and> T = L
           \<and> L' = divide_columns L (coefficients function L)
           \<and> F' = multiply_columns F (coefficients function L)"
    and "\<forall>c\<in>set (coefficients function T). nonzero_number c"
  shows "reconstruction F' L' = reconstruction F L
     \<and> (factors lr = Some F \<and> loadings lr = Some L \<longrightarrow>
          normalize_decomposition_components target_arg function lr
            = (Inr (), lr\<lparr> factors := Some F', loadings := Some L' \<rparr>))
     \<and> (bss_factors lr = Some F \<and> bss_loadings lr = Some L \<longrightarrow>
          normalize_bss_components target_arg function lr
            = (Inr (), lr\<lparr> bss_factors := Some F', bss_loadings := Some L' \<rparr>))"
  using assms(3)
proof (elim disjE conjE)
  assume h: "target_arg = ''factors''" "T = F"
    "F' = divide_columns F (coefficients function F)"
    "L' = multiply_columns L (coefficients function F)"
  have nz: "\<forall>c\<in>set (coefficients function F). nonzero_number c" using assms(4) h(2) by simp
  show ?thesis
    using reconstruction_normalized(1)[OF assms(1,2) nz]
      normalize_components_result[OF assms(1,2), of "function"] h
    by (simp add: normalize_decomposition_components_def normalize_bss_components_def)
next
  assume h: "target_arg = ''loadings''" "T = L"
    "L' = divide_columns L (coefficients function L)"
    "F' = multiply_columns F (coefficients function L)"
  have nz: "\<forall>c\<in>set (coefficients function L). nonzero_number c" using assms(4) h(2) by simp
  show ?thesis
    using reconstruction_normalized(2)[OF assms(2,1) nz]
      normalize_components_result[OF assms(2,1), of "function"] h
    by (simp add: normalize_decomposition_components_def normalize_bss_components_def)
qed

theorem normalize_components_reconstruction_witness:
  "normalize_decomposition_components ''factors'' np_sum small_results
     = (Inr (), small_results
          \<lparr> factors := Some [[Fin (1 / 4), Fin (1 / 3)], [Fin (3 / 4), Fin (2 / 3)]],
            loadings := Some [[Fin 20, Fin 36]] \<rparr>)
   \<and> reconstruction [[Fin (1 / 4), Fin (1 / 3)], [Fin (3 / 4), Fin (2 / 3)]] [[Fin 20, Fin 36]]
     = reconstruction [[Fin 1, Fin 2], [Fin 3, Fin 4]] [[Fin 5, Fin 6]]"
proof -
  let ?F = "[[Fin 1, Fin 2], [Fin 3, Fin 4]]"
  let ?L = "[[Fin 5, Fin 6]]"
  have c: "coefficients np_sum ?F = [Fin 4, Fin 6]"
    by (simp add: coefficients_def columns_of_def ncols_def upt_conv_Cons)
  have w: "has_columns 2 ?F" "has_columns 2 ?L"
    by (simp_all add: has_columns_def)
  have d: "''factors'' = ''factors'' \<and> ?F = ?F
           \<and> divide_columns ?F (coefficients np_sum ?F)
               = divide_columns ?F (coefficients np_sum ?F)
           \<and> multiply_columns ?L (coefficients np_sum ?F)
               = multiply_columns ?L (coefficients np_sum ?F)
       \<or> ''factors'' = ''loadings'' \<and> ?F = ?L
           \<and> multiply_columns ?L (coefficients np_sum ?F)
               = divide_columns ?L (coefficients np_sum ?L)
           \<and> divide_columns ?F (coefficients np_sum ?F)
               = multiply_columns ?F (coefficients np_sum ?L)"
    by simp
  have n: "\<forall>c\<in>set (coefficients np_sum ?F). nonzero_number c"
    by (simp add: c nonzero_number_def)
  have s: "factors small_results = Some ?F \<and> loadings small_results = Some ?L"
    by (simp add: small_results_def)
  have e: "divide_columns ?F (coefficients np_sum ?F)
             = [[Fin (1 / 4), Fin (1 / 3)], [Fin (3 / 4), Fin (2 / 3)]]"
    "multiply_columns ?L (coefficients np_sum ?F) = [[Fin 20, Fin 36]]"
    by (simp_all add: c divide_columns_def multiply_columns_def upt_conv_Cons)
  show ?thesis
    using normalize_components_reconstruction[OF w d n, of small_results] s
    unfolding e by blast
qed

end
